theory Spec2Isabelle
  imports Main
begin

section \<open>Request payloads (app.py: json.loads(request.data), data.get)\<close>

text \<open>
  A handler of app.py parses the request body with json.loads and reads six keys of the
  resulting dict with dict.get. A key of the dict is absent, null, or carries a value.
  The model covers payloads whose values have the type of the column they are written
  to (models.py): strings for bed_no, bedNo, ward and status, integers for patient_id
  and patientId. The integers are Python's, unbounded. A character of a string stands
  for a code point below 256, U+0000 included; a string is shorter than the 10^9 bytes
  that SQLite accepts.
\<close>

datatype 'a field = Absent | Null | Val 'a

record payload =
  p_bed_no :: "string field"
  p_bedNo :: "string field"
  p_ward :: "string field"
  p_status :: "string field"
  p_patient_id :: "int field"
  p_patientId :: "int field"
  p_other :: bool  \<comment> \<open>the dict has some key other than these six\<close>

text \<open>
  The body of a request: json.loads raises (with the text of the exception), or returns a
  value that is not a dict (of which the handlers only observe the truth value and that
  it has no method get), or returns a dict.
\<close>

datatype body = BadJSON string | NonObject bool | Object payload

text \<open>\<open>not data\<close> for a dict: it has no key at all.\<close>

definition is_empty :: "payload \<Rightarrow> bool" where
  "is_empty d \<longleftrightarrow>
     p_bed_no d = Absent \<and> p_bedNo d = Absent \<and> p_ward d = Absent \<and> p_status d = Absent \<and>
     p_patient_id d = Absent \<and> p_patientId d = Absent \<and> \<not> p_other d"

text \<open>\<open>data.get(k)\<close>: Python's None is \<open>None\<close>, for an absent key as for a null.\<close>

fun dict_get :: "'a field \<Rightarrow> 'a option" where
  "dict_get Absent = None"
| "dict_get Null = None"
| "dict_get (Val v) = Some v"

text \<open>\<open>data.get(k, d)\<close>: the default only replaces an absent key, not a null.\<close>

fun dict_get_default :: "'a field \<Rightarrow> 'a \<Rightarrow> 'a option" where
  "dict_get_default Absent d = Some d"
| "dict_get_default Null d = None"
| "dict_get_default (Val v) d = Some v"

text \<open>Python truth values: None, the empty string and 0 are false.\<close>

fun truthy_str :: "string option \<Rightarrow> bool" where
  "truthy_str None = False"
| "truthy_str (Some s) = (s \<noteq> [])"

fun truthy_int :: "int option \<Rightarrow> bool" where
  "truthy_int None = False"
| "truthy_int (Some n) = (n \<noteq> 0)"

text \<open>\<open>a or b\<close>: the left operand when it is true, the right operand otherwise.\<close>

definition or_str :: "string option \<Rightarrow> string option \<Rightarrow> string option" where
  "or_str a b = (if truthy_str a then a else b)"

definition or_int :: "int option \<Rightarrow> int option \<Rightarrow> int option" where
  "or_int a b = (if truthy_int a then a else b)"

section \<open>The bed table (models.py: class Bed)\<close>

text \<open>
  bed_no is the primary key of the table, alone; ward, status and patient_id are
  nullable columns. The table is the list of its rows, in insertion order. The foreign
  key of patient_id is not enforced (SQLite leaves foreign keys off unless a connection
  turns them on, and app.py does not), so the table of patients plays no part.
\<close>

record bed =
  bed_no :: string
  ward :: "string option"
  status :: "string option"
  patient_id :: "int option"

type_synonym db = "bed list"

text \<open>
  The exceptions that leave a handler: AttributeError from \<open>data.get\<close> on a value
  that is not a dict; IntegrityError (the primary key), OperationalError (SQLite refuses
  a LIKE pattern) and OverflowError (an integer that SQLite cannot hold) from a query or
  from \<open>db.session.commit()\<close>. Flask answers each with HTTP 500, and the session is
  discarded: the table stays as it was.
\<close>

datatype error = AttributeError | IntegrityError | OperationalError | OverflowError

text \<open>The primary key constraint: no two rows have the same bed_no.\<close>

definition pk_ok :: "db \<Rightarrow> bool" where
  "pk_ok s \<longleftrightarrow> distinct (map bed_no s)"

text \<open>
  \<open>db.session.add(bed); db.session.commit()\<close>: the INSERT fails with IntegrityError
  when a row with this primary key is in the table, and the table stays as it was.
\<close>

definition db_insert :: "bed \<Rightarrow> db \<Rightarrow> error + db" where
  "db_insert r s = (if bed_no r \<in> set (map bed_no s) then Inl IntegrityError else Inr (s @ [r]))"

text \<open>
  Committing a modified row: UPDATE bed SET ... WHERE bed_no = (the row's key).
\<close>

definition db_update :: "bed \<Rightarrow> db \<Rightarrow> db" where
  "db_update r s = map (\<lambda>x. if bed_no x = bed_no r then r else x) s"

text \<open>
  An SQLite INTEGER is a signed 64-bit integer: binding a Python int outside this range
  as a parameter of a statement raises OverflowError.
\<close>

definition sqlite_int_ok :: "int \<Rightarrow> bool" where
  "sqlite_int_ok n \<longleftrightarrow> - (2 ^ 63) \<le> n \<and> n < 2 ^ 63"

subsection \<open>The LIKE operator of SQLite\<close>

text \<open>
  app.py configures an SQLite database. \<open>Bed.ward.contains(ward)\<close> is the SQL condition
  \<open>bed.ward LIKE '%' || ? || '%'\<close>. In SQLite's LIKE, \<open>%\<close> in the pattern matches any
  sequence of characters, \<open>_\<close> matches any one character, and any other character
  matches itself, ASCII letters without regard to case. LIKE reads the pattern and the
  value as C strings, each up to its first U+0000. And it refuses a pattern of more than
  50000 bytes (in UTF-8, with whatever follows a U+0000 counted) with the error "LIKE or
  GLOB pattern too complex", which reaches the handler as OperationalError.
\<close>

definition nul :: char where
  "nul = CHR 0x00"

definition cstr :: "string \<Rightarrow> string" where
  "cstr t = takeWhile (\<lambda>c. c \<noteq> nul) t"

text \<open>The length of a string in UTF-8: a code point from 128 to 255 takes two bytes.\<close>

definition utf8_len :: "string \<Rightarrow> int" where
  "utf8_len t = sum_list (map (\<lambda>c. if (of_char c :: nat) < 128 then 1 else 2) t)"

definition like_limit :: int where
  "like_limit = 50000"

definition ascii_lower :: "char \<Rightarrow> char" where
  "ascii_lower c =
     (let n = (of_char c :: nat) in if 65 \<le> n \<and> n \<le> 90 then char_of (n + 32) else c)"

text \<open>The match of a pattern and a value, both already cut at their first U+0000.\<close>

fun like_match :: "string \<Rightarrow> string \<Rightarrow> bool" where
  "like_match [] t = (t = [])"
| "like_match (p # ps) [] = (p = CHR ''%'' \<and> like_match ps [])"
| "like_match (p # ps) (c # cs) =
     (if p = CHR ''%'' then like_match ps (c # cs) \<or> like_match (p # ps) cs
      else if p = CHR ''_'' then like_match ps cs
      else ascii_lower p = ascii_lower c \<and> like_match ps cs)"

text \<open>\<open>t LIKE p\<close>, for a pattern and a value that are not NULL.\<close>

definition sql_like :: "string \<Rightarrow> string \<Rightarrow> bool" where
  "sql_like p t = like_match (cstr p) (cstr t)"

text \<open>\<open>bed.ward LIKE '%' || ? || '%'\<close>; on a ward that is NULL it is not true.\<close>

definition ward_contains :: "string option \<Rightarrow> string \<Rightarrow> bool" where
  "ward_contains stored w =
     (case stored of None \<Rightarrow> False | Some x \<Rightarrow> sql_like (''%'' @ w @ ''%'') x)"

subsection \<open>The queries of the handlers\<close>

text \<open>\<open>Bed.query.filter_by(bed_no=bed_no, ward=ward).first()\<close>\<close>

definition query_exact :: "db \<Rightarrow> string \<Rightarrow> string \<Rightarrow> bed option" where
  "query_exact s b w = find (\<lambda>r. bed_no r = b \<and> ward r = Some w) s"

text \<open>
  \<open>Bed.query.filter(Bed.bed_no == bed_no, Bed.ward.contains(ward)).first()\<close>. SQLite
  finds the rows of the bed_no through the index of the primary key and evaluates LIKE
  on them only: the error of a pattern that is too long arises when the table has a row
  with this bed_no (whatever its ward, NULL included), and not otherwise.
\<close>

definition query_fuzzy :: "db \<Rightarrow> string \<Rightarrow> string \<Rightarrow> error + bed option" where
  "query_fuzzy s b w =
     (if like_limit < utf8_len (''%'' @ w @ ''%'') \<and> (\<exists>r\<in>set s. bed_no r = b)
      then Inl OperationalError
      else Inr (find (\<lambda>r. bed_no r = b \<and> ward_contains (ward r) w) s))"

section \<open>The handlers (app.py)\<close>

datatype response = Response nat string "bed option"

text \<open>GET /beds: all rows, each with its four fields.\<close>

definition get_beds :: "db \<Rightarrow> bed list" where
  "get_beds s = s"

text \<open>
  POST /beds, lines 205 to 236, once bed_no and ward are validated. A new row is built
  with \<open>Bed(bed_no=bed_no, ward=ward, status=status)\<close>: the INSERT leaves a None
  attribute out, so that the column default 'Available' of models.py is stored, and
  patient_id, never set, is NULL.
\<close>

definition upsert_bed :: "string \<Rightarrow> string \<Rightarrow> string option \<Rightarrow> db \<Rightarrow> (error + response) \<times> db" where
  "upsert_bed b w st s =
     (case query_exact s b w of
        Some r \<Rightarrow>
          (let r' = r\<lparr>status := st,
                      patient_id := (if st = Some ''Available'' then None else patient_id r)\<rparr>
           in (Inr (Response 200 ''Bed status updated'' (Some r')), db_update r' s))
      | None \<Rightarrow>
          (let r' = \<lparr>bed_no = b, ward = Some w,
                     status = (case st of None \<Rightarrow> Some ''Available'' | Some x \<Rightarrow> Some x),
                     patient_id = None\<rparr>
           in case db_insert r' s of
                Inl e \<Rightarrow> (Inl e, s)
              | Inr s' \<Rightarrow> (Inr (Response 201 ''Bed created'' (Some r')), s')))"

definition create_or_update_bed :: "body \<Rightarrow> db \<Rightarrow> (error + response) \<times> db" where
  "create_or_update_bed rq s =
     (case rq of
        BadJSON e \<Rightarrow> (Inr (Response 400 (''Invalid JSON: '' @ e) None), s)
      | NonObject t \<Rightarrow>
          (if \<not> t then (Inr (Response 400 ''Empty payload'' None), s)
           else (Inl AttributeError, s))
      | Object data \<Rightarrow>
          (if is_empty data then (Inr (Response 400 ''Empty payload'' None), s)
           else
             let bed_no = dict_get (p_bed_no data);
                 ward = dict_get (p_ward data);
                 status = dict_get_default (p_status data) ''Available''
             in if \<not> truthy_str bed_no \<or> \<not> truthy_str ward
                then (Inr (Response 400 ''bed_no and ward are required'' None), s)
                else upsert_bed (the bed_no) (the ward) status s))"

text \<open>
  POST /assign-bed, lines 259 to 281, once bed_no, ward and patient_id are validated.
\<close>

definition resolve_bed :: "db \<Rightarrow> string \<Rightarrow> string \<Rightarrow> error + bed option" where
  "resolve_bed s b w =
     (case query_exact s b w of Some r \<Rightarrow> Inr (Some r) | None \<Rightarrow> query_fuzzy s b w)"

text \<open>
  \<open>db.session.commit()\<close> of line 274 sends the UPDATE of the row with the patient id as
  a parameter, and raises OverflowError when SQLite cannot hold it.
\<close>

definition assign_resolved :: "string \<Rightarrow> string \<Rightarrow> int \<Rightarrow> db \<Rightarrow> (error + response) \<times> db" where
  "assign_resolved b w p s =
     (case resolve_bed s b w of
        Inl e \<Rightarrow> (Inl e, s)
      | Inr None \<Rightarrow>
          (Inr (Response 404 (''Bed not found with bed_no='' @ b @ '' and ward='' @ w) None), s)
      | Inr (Some r) \<Rightarrow>
          (if status r = Some ''Occupied''
           then (Inr (Response 400 ''Bed already occupied'' None), s)
           else
             let r' = r\<lparr>status := Some ''Occupied'', patient_id := Some p\<rparr>
             in if sqlite_int_ok p
                then (Inr (Response 200 ''Bed assigned'' (Some r')), db_update r' s)
                else (Inl OverflowError, s)))"

definition assign_bed :: "body \<Rightarrow> db \<Rightarrow> (error + response) \<times> db" where
  "assign_bed rq s =
     (case rq of
        BadJSON e \<Rightarrow> (Inr (Response 400 (''Invalid JSON: '' @ e) None), s)
      | NonObject t \<Rightarrow>
          (if \<not> t then (Inr (Response 400 ''Empty payload'' None), s)
           else (Inl AttributeError, s))
      | Object data \<Rightarrow>
          (if is_empty data then (Inr (Response 400 ''Empty payload'' None), s)
           else
             let bed_no = or_str (dict_get (p_bed_no data)) (dict_get (p_bedNo data));
                 ward = dict_get (p_ward data);
                 patient_id = or_int (dict_get (p_patient_id data)) (dict_get (p_patientId data))
             in if \<not> truthy_str bed_no \<or> \<not> truthy_str ward \<or> \<not> truthy_int patient_id
                then (Inr (Response 400 ''bed_no, ward, and patient_id are required'' None), s)
                else assign_resolved (the bed_no) (the ward) (the patient_id) s))"

section \<open>Sequences of requests\<close>

datatype request = GetBeds | PostBeds body | PostAssignBed body

fun step :: "db \<Rightarrow> request \<Rightarrow> db" where
  "step s GetBeds = s"
| "step s (PostBeds rq) = snd (create_or_update_bed rq s)"
| "step s (PostAssignBed rq) = snd (assign_bed rq s)"

definition run :: "request list \<Rightarrow> db" where
  "run rqs = foldl step [] rqs"

section \<open>Example data\<close>

text \<open>The dict with no key, from which the examples build their payloads.\<close>

definition no_keys :: payload where
  "no_keys = \<lparr>p_bed_no = Absent, p_bedNo = Absent, p_ward = Absent, p_status = Absent,
              p_patient_id = Absent, p_patientId = Absent, p_other = False\<rparr>"

definition bed_101 :: "string option \<Rightarrow> int option \<Rightarrow> bed" where
  "bed_101 st p = \<lparr>bed_no = ''101'', ward = Some ''Ward A'', status = st, patient_id = p\<rparr>"

section \<open>Invariants of the table\<close>

text \<open>A bed whose status is "Available" has no patient.\<close>

definition vacant_ok :: "db \<Rightarrow> bool" where
  "vacant_ok s \<longleftrightarrow> (\<forall>x\<in>set s. status x = Some ''Available'' \<longrightarrow> patient_id x = None)"

text \<open>Every bed has the status "Available" or "Occupied".\<close>

definition status_ok :: "db \<Rightarrow> bool" where
  "status_ok s \<longleftrightarrow> (\<forall>x\<in>set s. status x = Some ''Available'' \<or> status x = Some ''Occupied'')"

text \<open>
  A request that submits no other status: any GET /beds or POST /assign-bed, and a POST
  /beds whose payload has no status key, or the status "Available" or "Occupied".
\<close>

definition status_known :: "request \<Rightarrow> bool" where
  "status_known q \<longleftrightarrow>
     (case q of
        PostBeds (Object d) \<Rightarrow>
          p_status d = Absent \<or> p_status d = Val ''Available'' \<or> p_status d = Val ''Occupied''
      | _ \<Rightarrow> True)"

section \<open>Substrings, as the specification has them\<close>

text \<open>
  The specification describes the fuzzy lookup as case-sensitive containment: the given
  ward is a substring of the stored ward, as Python's \<open>w in t\<close> decides it.
\<close>

fun str_in :: "string \<Rightarrow> string \<Rightarrow> bool" where
  "str_in w [] = (w = [])"
| "str_in w (c # cs) = (take (length w) (c # cs) = w \<or> str_in w cs)"

text \<open>Containment without regard to the case of ASCII letters.\<close>

definition ci_in :: "string \<Rightarrow> string \<Rightarrow> bool" where
  "ci_in w t = str_in (map ascii_lower w) (map ascii_lower t)"

text \<open>
  A ward with no U+0000, and a ward that LIKE takes as it is written: with no U+0000,
  no \<open>%\<close> and no \<open>_\<close>, and short enough for the pattern made of it.
\<close>

definition no_nul :: "string \<Rightarrow> bool" where
  "no_nul t \<longleftrightarrow> nul \<notin> set t"

definition plain_ward :: "string \<Rightarrow> bool" where
  "plain_ward w \<longleftrightarrow>
     no_nul w \<and> CHR ''%'' \<notin> set w \<and> CHR ''_'' \<notin> set w \<and> utf8_len w + 2 \<le> like_limit"

section \<open>Basic facts about the queries and the table\<close>

lemma query_exact_SomeD:
  assumes "query_exact s b w = Some r"
  shows "r \<in> set s" and "bed_no r = b" and "ward r = Some w"
  using assms by (auto simp: query_exact_def find_Some_iff)

lemma query_fuzzy_SomeD:
  assumes "query_fuzzy s b w = Inr (Some r)"
  shows "r \<in> set s" and "bed_no r = b" and "ward_contains (ward r) w"
  using assms by (auto simp: query_fuzzy_def find_Some_iff split: if_splits)

lemma resolve_bed_SomeD:
  assumes "resolve_bed s b w = Inr (Some r)"
  shows "r \<in> set s" and "bed_no r = b"
  using assms
  by (auto simp: resolve_bed_def split: option.splits
           dest: query_exact_SomeD query_fuzzy_SomeD)

lemma db_update_keys: "map bed_no (db_update r s) = map bed_no s"
  by (induction s) (simp_all add: db_update_def)

lemma db_update_pk_ok: "pk_ok s \<Longrightarrow> pk_ok (db_update r s)"
  by (simp add: pk_ok_def db_update_keys)

lemma snoc_pk_ok: "pk_ok s \<Longrightarrow> bed_no r \<notin> set (map bed_no s) \<Longrightarrow> pk_ok (s @ [r])"
  by (simp add: pk_ok_def)

lemma set_db_update: "x \<in> set (db_update r s) \<Longrightarrow> x = r \<or> x \<in> set s"
  by (auto simp: db_update_def split: if_splits)

lemma find_key_db_update:
  "r \<in> set s \<Longrightarrow> bed_no r' = bed_no r \<Longrightarrow>
   find (\<lambda>x. bed_no x = bed_no r) (db_update r' s) = Some r'"
  by (induction s) (auto simp: db_update_def)

lemma query_exact_db_update:
  "query_exact s b w = Some r \<Longrightarrow> bed_no r' = b \<Longrightarrow> ward r' = Some w \<Longrightarrow>
   query_exact (db_update r' s) b w = Some r'"
  by (induction s) (auto simp: query_exact_def db_update_def split: if_splits)

lemma db_update_idem: "db_update r (db_update r s) = db_update r s"
  by (induction s) (simp_all add: db_update_def)

lemma query_exact_snoc:
  "query_exact s b w = None \<Longrightarrow> bed_no n = b \<Longrightarrow> ward n = Some w \<Longrightarrow>
   query_exact (s @ [n]) b w = Some n"
  by (induction s) (auto simp: query_exact_def split: if_splits)

lemma db_update_fresh: "bed_no n \<notin> set (map bed_no s) \<Longrightarrow> db_update n s = s"
  by (induction s) (auto simp: db_update_def)

lemma db_update_snoc: "bed_no n \<notin> set (map bed_no s) \<Longrightarrow> db_update n (s @ [n]) = s @ [n]"
  using db_update_fresh[of n s] by (simp add: db_update_def)

lemma pk_row_eq:
  "pk_ok s \<Longrightarrow> x \<in> set s \<Longrightarrow> y \<in> set s \<Longrightarrow> bed_no x = bed_no y \<Longrightarrow> x = y"
  by (auto simp: pk_ok_def distinct_map dest: inj_onD)

lemma ward_not_empty: "dict_get (p_ward d) = Some w \<Longrightarrow> \<not> is_empty d"
  by (auto simp: is_empty_def)

lemma run_Nil: "run [] = []"
  by (simp add: run_def)

lemma run_snoc: "run (rqs @ [rq]) = step (run rqs) rq"
  by (simp add: run_def)

section \<open>What a handler does to the table, by cases\<close>

lemma assign_bed_valid:
  assumes "or_str (dict_get (p_bed_no d)) (dict_get (p_bedNo d)) = Some b" "b \<noteq> []"
    and "dict_get (p_ward d) = Some w" "w \<noteq> []"
    and "or_int (dict_get (p_patient_id d)) (dict_get (p_patientId d)) = Some p" "p \<noteq> 0"
  shows "assign_bed (Object d) s = assign_resolved b w p s"
  using assms ward_not_empty[of d w] by (simp add: assign_bed_def Let_def)

lemma upsert_bed_existing:
  assumes "query_exact s b w = Some r"
  shows "upsert_bed b w st s =
           (Inr (Response 200 ''Bed status updated''
                  (Some (r\<lparr>status := st,
                           patient_id := (if st = Some ''Available'' then None else patient_id r)\<rparr>))),
            db_update (r\<lparr>status := st,
                         patient_id := (if st = Some ''Available'' then None else patient_id r)\<rparr>) s)"
  using assms by (simp add: upsert_bed_def Let_def)

lemma create_or_update_bed_valid:
  assumes "dict_get (p_bed_no d) = Some b" "b \<noteq> []"
    and "dict_get (p_ward d) = Some w" "w \<noteq> []"
  shows "create_or_update_bed (Object d) s =
           upsert_bed b w (dict_get_default (p_status d) ''Available'') s"
  using assms ward_not_empty[of d w] by (simp add: create_or_update_bed_def Let_def)

lemma upsert_bed_cases:
  "snd (upsert_bed b w st s) = s
   \<or> (\<exists>r. query_exact s b w = Some r \<and>
          snd (upsert_bed b w st s) =
            db_update (r\<lparr>status := st,
                         patient_id := (if st = Some ''Available'' then None else patient_id r)\<rparr>) s)
   \<or> (query_exact s b w = None \<and> b \<notin> set (map bed_no s) \<and>
      snd (upsert_bed b w st s) =
        s @ [\<lparr>bed_no = b, ward = Some w,
               status = (case st of None \<Rightarrow> Some ''Available'' | Some x \<Rightarrow> Some x),
               patient_id = None\<rparr>])"
  by (cases "query_exact s b w")
     (auto simp: upsert_bed_def db_insert_def Let_def)

lemma create_or_update_bed_cases:
  "snd (create_or_update_bed rq s) = s
   \<or> (\<exists>d b w. rq = Object d \<and> dict_get (p_bed_no d) = Some b \<and> b \<noteq> [] \<and>
          dict_get (p_ward d) = Some w \<and> w \<noteq> [] \<and>
          snd (create_or_update_bed rq s) =
            snd (upsert_bed b w (dict_get_default (p_status d) ''Available'') s))"
proof (cases rq)
  case (Object d)
  show ?thesis
  proof (cases "is_empty d \<or> \<not> truthy_str (dict_get (p_bed_no d))
                 \<or> \<not> truthy_str (dict_get (p_ward d))")
    case True
    then show ?thesis using Object by (auto simp: create_or_update_bed_def Let_def)
  next
    case False
    then obtain b w where "dict_get (p_bed_no d) = Some b" "b \<noteq> []"
        "dict_get (p_ward d) = Some w" "w \<noteq> []"
      by (cases "dict_get (p_bed_no d)"; cases "dict_get (p_ward d)") auto
    then show ?thesis using Object False
      by (auto simp: create_or_update_bed_def Let_def)
  qed
qed (auto simp: create_or_update_bed_def)

lemma assign_resolved_cases:
  "snd (assign_resolved b w p s) = s
   \<or> (\<exists>r. resolve_bed s b w = Inr (Some r) \<and> status r \<noteq> Some ''Occupied'' \<and>
          sqlite_int_ok p \<and>
          snd (assign_resolved b w p s) =
            db_update (r\<lparr>status := Some ''Occupied'', patient_id := Some p\<rparr>) s)"
  by (auto simp: assign_resolved_def Let_def split: sum.splits option.splits)

lemma assign_bed_cases:
  "snd (assign_bed rq s) = s
   \<or> (\<exists>r p. r \<in> set s \<and> status r \<noteq> Some ''Occupied'' \<and> p \<noteq> 0 \<and>
          snd (assign_bed rq s) =
            db_update (r\<lparr>status := Some ''Occupied'', patient_id := Some p\<rparr>) s)"
proof (cases rq)
  case (Object d)
  let ?b = "or_str (dict_get (p_bed_no d)) (dict_get (p_bedNo d))"
  let ?w = "dict_get (p_ward d)"
  let ?p = "or_int (dict_get (p_patient_id d)) (dict_get (p_patientId d))"
  show ?thesis
  proof (cases "is_empty d \<or> \<not> truthy_str ?b \<or> \<not> truthy_str ?w \<or> \<not> truthy_int ?p")
    case True
    then show ?thesis using Object by (auto simp: assign_bed_def Let_def)
  next
    case False
    then obtain b w p
      where v: "?b = Some b" "b \<noteq> []" "?w = Some w" "w \<noteq> []" "?p = Some p" "p \<noteq> 0"
      by (cases ?b; cases ?w; cases ?p) auto
    have "assign_bed rq s = assign_resolved b w p s"
      unfolding Object using v by (rule assign_bed_valid)
    then show ?thesis
      using assign_resolved_cases[of b w p s] v(6) by (auto dest: resolve_bed_SomeD)
  qed
qed (auto simp: assign_bed_def)

section \<open>The primary key holds in every reachable table\<close>

lemma upsert_bed_pk_ok:
  assumes "pk_ok s"
  shows "pk_ok (snd (upsert_bed b w st s))"
  using upsert_bed_cases[of b w st s]
proof (elim disjE exE conjE)
  assume "snd (upsert_bed b w st s) = s"
  then show ?thesis using assms by simp
next
  fix r
  assume "snd (upsert_bed b w st s) =
            db_update (r\<lparr>status := st,
                         patient_id := (if st = Some ''Available'' then None else patient_id r)\<rparr>) s"
  then show ?thesis using assms by (simp only: db_update_pk_ok)
next
  assume "b \<notin> set (map bed_no s)"
    and "snd (upsert_bed b w st s) =
        s @ [\<lparr>bed_no = b, ward = Some w,
               status = (case st of None \<Rightarrow> Some ''Available'' | Some x \<Rightarrow> Some x),
               patient_id = None\<rparr>]"
  then show ?thesis using assms by (simp add: snoc_pk_ok)
qed

lemma step_pk_ok:
  assumes "pk_ok s"
  shows "pk_ok (step s rq)"
proof (cases rq)
  case GetBeds
  then show ?thesis using assms by simp
next
  case (PostBeds x)
  then show ?thesis using assms create_or_update_bed_cases[of x s]
    by (auto simp: upsert_bed_pk_ok)
next
  case (PostAssignBed x)
  then show ?thesis using assms assign_bed_cases[of x s]
    by (auto simp: db_update_pk_ok)
qed

lemma run_pk_ok: "pk_ok (run rqs)"
proof (induction rqs rule: rev_induct)
  case Nil
  show ?case by (simp add: run_Nil pk_ok_def)
next
  case (snoc rq rqs)
  then show ?case by (simp add: run_snoc step_pk_ok)
qed

section \<open>C1: one bed_no in two wards\<close>

text \<open>
  C1. The claim: bed records are keyed by the pair (bed_no, ward), so that submitting to
  POST /beds a pair not seen before creates a record for it, also when a bed with the same
  bed_no exists in another ward. On the code: after bed 101 of Ward A is created, POST
  /beds for bed 101 of Ward B finds no row for the pair, takes the branch that creates a
  bed, and the INSERT raises IntegrityError on the primary key bed_no; no record is
  created.
\<close>

theorem upsert_second_ward_integrity_error:
  "run [PostBeds (Object (no_keys\<lparr>p_bed_no := Val ''101'', p_ward := Val ''Ward A''\<rparr>))]
     = [bed_101 (Some ''Available'') None]
   \<and> create_or_update_bed (Object (no_keys\<lparr>p_bed_no := Val ''101'', p_ward := Val ''Ward B''\<rparr>))
        [bed_101 (Some ''Available'') None]
     = (Inl IntegrityError, [bed_101 (Some ''Available'') None])"
  by code_simp

theorem upsert_second_ward_integrity_error_witness:
  "fst (create_or_update_bed (Object (no_keys\<lparr>p_bed_no := Val ''101'', p_ward := Val ''Ward B''\<rparr>))
        [bed_101 (Some ''Available'') None]) = Inl IntegrityError"
  using upsert_second_ward_integrity_error by simp

section \<open>C3: an occupied bed is not assigned again\<close>

text \<open>
  C3. When a POST /assign-bed request passes validation and resolves to a bed whose status
  is "Occupied" (occupant p1), whatever the patient id p2 of the request, the reply is
  400 with msg "Bed already occupied", the table is left as it was, and the request
  still resolves to the same record, occupied by p1.
\<close>

theorem assign_bed_occupied_conflict:
  assumes "or_str (dict_get (p_bed_no d)) (dict_get (p_bedNo d)) = Some b" "b \<noteq> []"
    and "dict_get (p_ward d) = Some w" "w \<noteq> []"
    and "or_int (dict_get (p_patient_id d)) (dict_get (p_patientId d)) = Some p2" "p2 \<noteq> 0"
    and "resolve_bed s b w = Inr (Some r)"
    and "status r = Some ''Occupied''" "patient_id r = Some p1"
  shows "assign_bed (Object d) s = (Inr (Response 400 ''Bed already occupied'' None), s)
       \<and> get_beds (snd (assign_bed (Object d) s)) = get_beds s
       \<and> resolve_bed (snd (assign_bed (Object d) s)) b w = Inr (Some r)
       \<and> status r = Some ''Occupied'' \<and> patient_id r = Some p1"
proof -
  have "assign_bed (Object d) s = assign_resolved b w p2 s"
    using assms(1-6) by (rule assign_bed_valid)
  then have "assign_bed (Object d) s = (Inr (Response 400 ''Bed already occupied'' None), s)"
    using assms(7,8) by (simp add: assign_resolved_def)
  then show ?thesis using assms(7-9) by simp
qed

theorem assign_bed_occupied_conflict_witness:
  "assign_bed (Object (no_keys\<lparr>p_bed_no := Val ''101'', p_ward := Val ''Ward A'',
                              p_patient_id := Val 9\<rparr>))
     [bed_101 (Some ''Occupied'') (Some 7)]
   = (Inr (Response 400 ''Bed already occupied'' None), [bed_101 (Some ''Occupied'') (Some 7)])"
proof -
  let ?d = "no_keys\<lparr>p_bed_no := Val ''101'', p_ward := Val ''Ward A'', p_patient_id := Val 9\<rparr>"
  let ?r = "bed_101 (Some ''Occupied'') (Some 7)"
  have 1: "or_str (dict_get (p_bed_no ?d)) (dict_get (p_bedNo ?d)) = Some ''101''" by code_simp
  have 2: "dict_get (p_ward ?d) = Some ''Ward A''" by code_simp
  have 3: "or_int (dict_get (p_patient_id ?d)) (dict_get (p_patientId ?d)) = Some 9" by code_simp
  have 4: "resolve_bed [?r] ''101'' ''Ward A'' = Inr (Some ?r)" by code_simp
  have 5: "status ?r = Some ''Occupied''" "patient_id ?r = Some 7" by code_simp+
  show ?thesis
    using assign_bed_occupied_conflict[OF 1 _ 2 _ 3 _ 4 5] by simp
qed

section \<open>C6: a bed that is Available has no patient\<close>

lemma vacant_ok_db_update:
  "vacant_ok s \<Longrightarrow> (status r = Some ''Available'' \<longrightarrow> patient_id r = None) \<Longrightarrow>
   vacant_ok (db_update r s)"
  unfolding vacant_ok_def by (blast dest: set_db_update)

lemma vacant_ok_upsert:
  assumes "vacant_ok s"
  shows "vacant_ok (snd (upsert_bed b w st s))"
  using upsert_bed_cases[of b w st s]
proof (elim disjE exE conjE)
  assume "snd (upsert_bed b w st s) = s"
  then show ?thesis using assms by simp
next
  fix r :: bed
  let ?r' = "r\<lparr>status := st, patient_id := (if st = Some ''Available'' then None else patient_id r)\<rparr>"
  assume "snd (upsert_bed b w st s) = db_update ?r' s"
  moreover have "vacant_ok (db_update ?r' s)"
    using assms by (rule vacant_ok_db_update) simp
  ultimately show ?thesis by simp
next
  assume "snd (upsert_bed b w st s) =
        s @ [\<lparr>bed_no = b, ward = Some w,
               status = (case st of None \<Rightarrow> Some ''Available'' | Some x \<Rightarrow> Some x),
               patient_id = None\<rparr>]"
  then show ?thesis using assms by (simp add: vacant_ok_def)
qed

lemma vacant_ok_step:
  assumes "vacant_ok s"
  shows "vacant_ok (step s rq)"
proof (cases rq)
  case GetBeds
  then show ?thesis using assms by simp
next
  case (PostBeds x)
  then show ?thesis using assms create_or_update_bed_cases[of x s]
    by (auto simp: vacant_ok_upsert)
next
  case (PostAssignBed x)
  from assign_bed_cases[of x s] show ?thesis
  proof (elim disjE exE conjE)
    assume "snd (assign_bed x s) = s"
    then show ?thesis using assms PostAssignBed by simp
  next
    fix r :: bed and p :: int
    let ?r' = "r\<lparr>status := Some ''Occupied'', patient_id := Some p\<rparr>"
    assume "snd (assign_bed x s) = db_update ?r' s"
    moreover have "vacant_ok (db_update ?r' s)"
      using assms by (rule vacant_ok_db_update) simp
    ultimately show ?thesis using PostAssignBed by simp
  qed
qed

lemma vacant_ok_run: "vacant_ok (run rqs)"
proof (induction rqs rule: rev_induct)
  case Nil
  show ?case by (simp add: run_Nil vacant_ok_def)
next
  case (snoc rq rqs)
  then show ?case by (simp add: run_snoc vacant_ok_step)
qed

text \<open>
  C6. POST /beds with status "Available" for a pair (bed_no, ward) that has a record sets
  the status of the record to "Available" and its patient_id to null, whoever occupied
  the bed. And in every table reached from the empty one through the three operations,
  every bed whose status is "Available" has patient_id null.
\<close>

theorem upsert_available_clears_patient:
  "(dict_get (p_bed_no d) = Some b \<and> b \<noteq> [] \<and> dict_get (p_ward d) = Some w \<and> w \<noteq> [] \<and>
    p_status d = Val ''Available'' \<and> query_exact s b w = Some r
    \<longrightarrow> create_or_update_bed (Object d) s =
          (Inr (Response 200 ''Bed status updated''
                 (Some (r\<lparr>status := Some ''Available'', patient_id := None\<rparr>))),
           db_update (r\<lparr>status := Some ''Available'', patient_id := None\<rparr>) s)
        \<and> query_exact (snd (create_or_update_bed (Object d) s)) b w =
            Some \<lparr>bed_no = b, ward = Some w, status = Some ''Available'', patient_id = None\<rparr>)
   \<and> (\<forall>x\<in>set (get_beds (run rqs)). status x = Some ''Available'' \<longrightarrow> patient_id x = None)"
proof (intro conjI impI)
  assume a: "dict_get (p_bed_no d) = Some b \<and> b \<noteq> [] \<and> dict_get (p_ward d) = Some w \<and> w \<noteq> [] \<and>
    p_status d = Val ''Available'' \<and> query_exact s b w = Some r"
  let ?r' = "r\<lparr>status := Some ''Available'', patient_id := None\<rparr>"
  have "create_or_update_bed (Object d) s = upsert_bed b w (Some ''Available'') s"
    using a create_or_update_bed_valid[of d b w s] by simp
  then show 1: "create_or_update_bed (Object d) s =
          (Inr (Response 200 ''Bed status updated'' (Some ?r')), db_update ?r' s)"
    using a by (simp add: upsert_bed_existing)
  have k: "bed_no r = b" "ward r = Some w"
    using a query_exact_SomeD[of s b w r] by simp_all
  then have e: "?r' = \<lparr>bed_no = b, ward = Some w, status = Some ''Available'', patient_id = None\<rparr>"
    by simp
  have "query_exact (db_update ?r' s) b w = Some ?r'"
    using a k by (intro query_exact_db_update) simp_all
  then show "query_exact (snd (create_or_update_bed (Object d) s)) b w =
            Some \<lparr>bed_no = b, ward = Some w, status = Some ''Available'', patient_id = None\<rparr>"
    unfolding 1 e by simp
next
  show "\<forall>x\<in>set (get_beds (run rqs)). status x = Some ''Available'' \<longrightarrow> patient_id x = None"
    using vacant_ok_run[of rqs] by (simp add: vacant_ok_def get_beds_def)
qed


theorem upsert_available_clears_patient_witness:
  "create_or_update_bed
     (Object (no_keys\<lparr>p_bed_no := Val ''101'', p_ward := Val ''Ward A'',
                      p_status := Val ''Available''\<rparr>))
     [bed_101 (Some ''Occupied'') (Some 7)]
   = (Inr (Response 200 ''Bed status updated'' (Some (bed_101 (Some ''Available'') None))),
      [bed_101 (Some ''Available'') None])
   \<and> run [PostBeds (Object (no_keys\<lparr>p_bed_no := Val ''101'', p_ward := Val ''Ward A''\<rparr>)),
          PostAssignBed (Object (no_keys\<lparr>p_bedNo := Val ''101'', p_ward := Val ''A'',
                                         p_patientId := Val 7\<rparr>)),
          PostBeds (Object (no_keys\<lparr>p_bed_no := Val ''101'', p_ward := Val ''Ward A'',
                                    p_status := Val ''Available''\<rparr>))]
     = [bed_101 (Some ''Available'') None]"
proof -
  let ?d = "no_keys\<lparr>p_bed_no := Val ''101'', p_ward := Val ''Ward A'',
                    p_status := Val ''Available''\<rparr>"
  let ?r = "bed_101 (Some ''Occupied'') (Some 7)"
  have h: "dict_get (p_bed_no ?d) = Some ''101'' \<and> ''101'' \<noteq> [] \<and>
           dict_get (p_ward ?d) = Some ''Ward A'' \<and> ''Ward A'' \<noteq> [] \<and>
           p_status ?d = Val ''Available'' \<and> query_exact [?r] ''101'' ''Ward A'' = Some ?r"
    by code_simp
  have e: "?r\<lparr>status := Some ''Available'', patient_id := None\<rparr>
             = bed_101 (Some ''Available'') None"
    by (simp add: bed_101_def)
  have u: "db_update (bed_101 (Some ''Available'') None) [?r] = [bed_101 (Some ''Available'') None]"
    by code_simp
  have 1: "create_or_update_bed (Object ?d) [?r]
             = (Inr (Response 200 ''Bed status updated'' (Some (bed_101 (Some ''Available'') None))),
                [bed_101 (Some ''Available'') None])"
    using upsert_available_clears_patient[of ?d "''101''" "''Ward A''" "[?r]" ?r "[]"] h
    by (simp add: e u)
  have 2: "run [PostBeds (Object (no_keys\<lparr>p_bed_no := Val ''101'', p_ward := Val ''Ward A''\<rparr>)),
          PostAssignBed (Object (no_keys\<lparr>p_bedNo := Val ''101'', p_ward := Val ''A'',
                                         p_patientId := Val 7\<rparr>)),
          PostBeds (Object (no_keys\<lparr>p_bed_no := Val ''101'', p_ward := Val ''Ward A'',
                                    p_status := Val ''Available''\<rparr>))]
     = [bed_101 (Some ''Available'') None]"
    by code_simp
  show ?thesis using 1 2 by (rule conjI)
qed

section \<open>C7: vacating twice is vacating once\<close>

lemma upsert_bed_available_idem:
  "snd (upsert_bed b w (Some ''Available'') (snd (upsert_bed b w (Some ''Available'') s)))
     = snd (upsert_bed b w (Some ''Available'') s)"
proof (cases "query_exact s b w")
  case (Some r)
  let ?r' = "r\<lparr>status := Some ''Available'', patient_id := None\<rparr>"
  have k: "bed_no ?r' = b" "ward ?r' = Some w"
    using query_exact_SomeD[OF Some] by simp_all
  have 1: "snd (upsert_bed b w (Some ''Available'') s) = db_update ?r' s"
    using Some by (simp add: upsert_bed_existing)
  have 2: "query_exact (db_update ?r' s) b w = Some ?r'"
    using Some k by (rule query_exact_db_update)
  have "snd (upsert_bed b w (Some ''Available'') (db_update ?r' s)) = db_update ?r' (db_update ?r' s)"
    using 2 by (simp add: upsert_bed_existing)
  then show ?thesis by (simp add: 1 db_update_idem)
next
  case None
  let ?n = "\<lparr>bed_no = b, ward = Some w, status = Some ''Available'', patient_id = None\<rparr>"
  show ?thesis
  proof (cases "b \<in> set (map bed_no s)")
    case True
    then have "snd (upsert_bed b w (Some ''Available'') s) = s"
      using None by (simp add: upsert_bed_def db_insert_def)
    then show ?thesis by simp
  next
    case False
    then have 1: "snd (upsert_bed b w (Some ''Available'') s) = s @ [?n]"
      using None by (simp add: upsert_bed_def db_insert_def Let_def)
    have 2: "query_exact (s @ [?n]) b w = Some ?n"
      using None by (rule query_exact_snoc) simp_all
    have "snd (upsert_bed b w (Some ''Available'') (s @ [?n])) = db_update ?n (s @ [?n])"
      using 2 by (simp add: upsert_bed_existing)
    moreover have "db_update ?n (s @ [?n]) = s @ [?n]"
      using False by (intro db_update_snoc) simp
    ultimately show ?thesis by (simp add: 1)
  qed
qed

text \<open>
  C7. For every payload with status "Available" (whatever its bed_no and ward) and every
  table, POST /beds applied twice in succession leaves the table, which is what GET /beds
  returns, as one application leaves it.
\<close>

theorem upsert_available_idempotent:
  "get_beds (step (step s (PostBeds (Object (d\<lparr>p_status := Val ''Available''\<rparr>))))
                  (PostBeds (Object (d\<lparr>p_status := Val ''Available''\<rparr>))))
   = get_beds (step s (PostBeds (Object (d\<lparr>p_status := Val ''Available''\<rparr>))))"
proof -
  let ?rq = "Object (d\<lparr>p_status := Val ''Available''\<rparr>)"
  from create_or_update_bed_cases[of ?rq s]
  have "snd (create_or_update_bed ?rq (snd (create_or_update_bed ?rq s)))
          = snd (create_or_update_bed ?rq s)"
  proof (elim disjE exE conjE)
    assume "snd (create_or_update_bed ?rq s) = s"
    then show ?thesis by simp
  next
    fix d' b w
    assume a: "?rq = Object d'" "dict_get (p_bed_no d') = Some b" "b \<noteq> []"
      "dict_get (p_ward d') = Some w" "w \<noteq> []"
    then have d': "d' = d\<lparr>p_status := Val ''Available''\<rparr>" by simp
    have v: "\<And>t. create_or_update_bed ?rq t = upsert_bed b w (Some ''Available'') t"
      using a(2-5) ward_not_empty[of d' w] unfolding d'
      by (simp add: create_or_update_bed_def Let_def)
    show ?thesis by (simp add: v upsert_bed_available_idem)
  qed
  then show ?thesis by (simp add: get_beds_def)
qed


theorem upsert_available_idempotent_witness:
  "get_beds (step (step [bed_101 (Some ''Occupied'') (Some 7)]
                    (PostBeds (Object (no_keys\<lparr>p_bed_no := Val ''101'', p_ward := Val ''Ward A''\<rparr>
                                         \<lparr>p_status := Val ''Available''\<rparr>))))
                  (PostBeds (Object (no_keys\<lparr>p_bed_no := Val ''101'', p_ward := Val ''Ward A''\<rparr>
                                       \<lparr>p_status := Val ''Available''\<rparr>))))
   = [bed_101 (Some ''Available'') None]"
proof -
  have h: "get_beds (step [bed_101 (Some ''Occupied'') (Some 7)]
                    (PostBeds (Object (no_keys\<lparr>p_bed_no := Val ''101'', p_ward := Val ''Ward A''\<rparr>
                                         \<lparr>p_status := Val ''Available''\<rparr>))))
           = [bed_101 (Some ''Available'') None]"
    by code_simp
  show ?thesis
    by (simp only: upsert_available_idempotent h)
qed

section \<open>C10: POST /beds writes no patient reference\<close>

lemma upsert_bed_patient:
  assumes "x \<in> set (snd (upsert_bed b w st s))"
  shows "patient_id x = None \<or> (\<exists>y\<in>set s. bed_no y = bed_no x \<and> patient_id y = patient_id x)"
  using upsert_bed_cases[of b w st s]
proof (elim disjE exE conjE)
  assume "snd (upsert_bed b w st s) = s"
  then show ?thesis using assms by auto
next
  fix r :: bed
  let ?r' = "r\<lparr>status := st, patient_id := (if st = Some ''Available'' then None else patient_id r)\<rparr>"
  assume q: "query_exact s b w = Some r" and u: "snd (upsert_bed b w st s) = db_update ?r' s"
  have "r \<in> set s" using q by (rule query_exact_SomeD)
  moreover have "x = ?r' \<or> x \<in> set s" using assms u by (simp add: set_db_update)
  ultimately show ?thesis by (cases "st = Some ''Available''") auto
next
  assume "snd (upsert_bed b w st s) =
        s @ [\<lparr>bed_no = b, ward = Some w,
               status = (case st of None \<Rightarrow> Some ''Available'' | Some x \<Rightarrow> Some x),
               patient_id = None\<rparr>]"
  then show ?thesis using assms by auto
qed

lemma create_or_update_bed_patient:
  assumes "x \<in> set (snd (create_or_update_bed rq s))"
  shows "patient_id x = None \<or> (\<exists>y\<in>set s. bed_no y = bed_no x \<and> patient_id y = patient_id x)"
  using create_or_update_bed_cases[of rq s]
proof (elim disjE exE conjE)
  assume "snd (create_or_update_bed rq s) = s"
  then show ?thesis using assms by auto
next
  fix d b w
  assume "snd (create_or_update_bed rq s) =
            snd (upsert_bed b w (dict_get_default (p_status d) ''Available'') s)"
  then show ?thesis using assms upsert_bed_patient by simp
qed

lemma upsert_bed_created:
  "fst (upsert_bed b w st s) = Inr (Response 201 m (Some r)) \<Longrightarrow> patient_id r = None"
  by (cases "query_exact s b w")
     (auto simp: upsert_bed_def db_insert_def Let_def split: if_splits)

lemma create_or_update_bed_created:
  assumes "fst (create_or_update_bed rq s) = Inr (Response 201 m (Some r))"
  shows "patient_id r = None"
proof (cases rq)
  case (Object d)
  show ?thesis
  proof (cases "is_empty d \<or> \<not> truthy_str (dict_get (p_bed_no d))
                 \<or> \<not> truthy_str (dict_get (p_ward d))")
    case True
    then show ?thesis using assms Object
      by (auto simp: create_or_update_bed_def Let_def split: if_splits)
  next
    case False
    then show ?thesis using assms Object upsert_bed_created
      by (auto simp: create_or_update_bed_def Let_def)
  qed
qed (use assms in \<open>auto simp: create_or_update_bed_def split: if_splits\<close>)

lemma db_update_same_patient:
  assumes "pk_ok s" "r \<in> set s" "bed_no r' = bed_no r" "patient_id r' = patient_id r"
  shows "map patient_id (db_update r' s) = map patient_id s"
proof -
  have "\<And>x. x \<in> set s \<Longrightarrow> patient_id (if bed_no x = bed_no r' then r' else x) = patient_id x"
    using assms pk_row_eq[of s _ r] by auto
  then show ?thesis by (simp add: db_update_def)
qed

lemma upsert_bed_keeps_patients:
  assumes "pk_ok s" "st \<noteq> Some ''Available''"
  shows "map patient_id (take (length s) (snd (upsert_bed b w st s))) = map patient_id s"
  using upsert_bed_cases[of b w st s]
proof (elim disjE exE conjE)
  assume "snd (upsert_bed b w st s) = s"
  then show ?thesis by simp
next
  fix r :: bed
  let ?r' = "r\<lparr>status := st, patient_id := (if st = Some ''Available'' then None else patient_id r)\<rparr>"
  assume q: "query_exact s b w = Some r" and u: "snd (upsert_bed b w st s) = db_update ?r' s"
  have "r \<in> set s" using q by (rule query_exact_SomeD)
  then have "map patient_id (db_update ?r' s) = map patient_id s"
    using assms by (intro db_update_same_patient[of s r]) simp_all
  moreover have "length (db_update ?r' s) = length s" by (simp add: db_update_def)
  ultimately show ?thesis using u by simp
next
  assume "snd (upsert_bed b w st s) =
        s @ [\<lparr>bed_no = b, ward = Some w,
               status = (case st of None \<Rightarrow> Some ''Available'' | Some x \<Rightarrow> Some x),
               patient_id = None\<rparr>]"
  then show ?thesis by simp
qed

lemma create_or_update_bed_keeps_patients:
  assumes "pk_ok s" "dict_get_default (p_status d) ''Available'' \<noteq> Some ''Available''"
  shows "map patient_id (take (length s) (snd (create_or_update_bed (Object d) s)))
           = map patient_id s"
  using create_or_update_bed_cases[of "Object d" s]
proof (elim disjE exE conjE)
  assume "snd (create_or_update_bed (Object d) s) = s"
  then show ?thesis by simp
next
  fix d' b w
  assume "Object d = Object d'"
    and "snd (create_or_update_bed (Object d) s) =
            snd (upsert_bed b w (dict_get_default (p_status d') ''Available'') s)"
  then show ?thesis using assms upsert_bed_keeps_patients by simp
qed

lemma no_assign_no_patient:
  assumes "\<forall>q\<in>set rqs. \<forall>bd. q \<noteq> PostAssignBed bd"
  shows "\<forall>x\<in>set (run rqs). patient_id x = None"
  using assms
proof (induction rqs rule: rev_induct)
  case Nil
  show ?case by (simp add: run_Nil)
next
  case (snoc rq rqs)
  then have ih: "\<forall>x\<in>set (run rqs). patient_id x = None" by simp
  show ?case
  proof (cases rq)
    case GetBeds
    then show ?thesis using ih by (simp add: run_snoc)
  next
    case (PostBeds bd)
    then show ?thesis using ih create_or_update_bed_patient[of _ bd "run rqs"]
      by (fastforce simp: run_snoc)
  next
    case (PostAssignBed bd)
    then show ?thesis using snoc.prems by simp
  qed
qed

text \<open>
  C10. POST /beds never sets patient_id to a value: every row of the table after the
  request has patient_id null or the patient_id that the row of the same bed_no had
  before; a bed it creates (reply 201) has patient_id null, whatever the submitted
  status; with a submitted status other than "Available" the patient_id of every row
  stays as it was; and a table reached without any POST /assign-bed request holds no
  patient reference at all.
\<close>

theorem upsert_never_sets_patient:
  "(\<forall>x\<in>set (snd (create_or_update_bed rq s)).
      patient_id x = None \<or> (\<exists>y\<in>set s. bed_no y = bed_no x \<and> patient_id y = patient_id x))
   \<and> (\<forall>m r. fst (create_or_update_bed rq s) = Inr (Response 201 m (Some r)) \<longrightarrow> patient_id r = None)
   \<and> (pk_ok s \<and> dict_get_default (p_status d) ''Available'' \<noteq> Some ''Available''
       \<longrightarrow> map patient_id (take (length s) (snd (create_or_update_bed (Object d) s)))
             = map patient_id s)
   \<and> ((\<forall>q\<in>set rqs. \<forall>bd. q \<noteq> PostAssignBed bd) \<longrightarrow> (\<forall>x\<in>set (run rqs). patient_id x = None))"
  using create_or_update_bed_patient[of _ rq s] create_or_update_bed_created[of rq s]
    create_or_update_bed_keeps_patients[of s d] no_assign_no_patient[of rqs]
  by blast


theorem upsert_never_sets_patient_witness:
  "map patient_id
     (snd (create_or_update_bed
            (Object (no_keys\<lparr>p_bed_no := Val ''101'', p_ward := Val ''Ward A'',
                             p_status := Val ''Occupied''\<rparr>))
            [bed_101 (Some ''Cleaning'') (Some 7)]))
   = [Some 7]
   \<and> patient_id (bed_101 (Some ''Occupied'') None) = None
   \<and> map patient_id
        (run [PostBeds (Object (no_keys\<lparr>p_bed_no := Val ''101'', p_ward := Val ''Ward A'',
                                        p_status := Val ''Occupied''\<rparr>))])
      = [None]"
proof -
  let ?d = "no_keys\<lparr>p_bed_no := Val ''101'', p_ward := Val ''Ward A'',
                    p_status := Val ''Occupied''\<rparr>"
  let ?s = "[bed_101 (Some ''Cleaning'') (Some 7)]"
  let ?rqs = "[PostBeds (Object ?d)]"
  note t = upsert_never_sets_patient[of "Object ?d" ?s ?d ?rqs]
  note t0 = upsert_never_sets_patient[of "Object ?d" "[]" ?d ?rqs]
  have h1: "pk_ok ?s \<and> dict_get_default (p_status ?d) ''Available'' \<noteq> Some ''Available''"
    by code_simp
  have l: "length (snd (create_or_update_bed (Object ?d) ?s)) = length ?s"
    by code_simp
  have 1: "map patient_id (snd (create_or_update_bed (Object ?d) ?s)) = [Some 7]"
  proof -
    from t h1 have "map patient_id (take (length ?s) (snd (create_or_update_bed (Object ?d) ?s)))
             = map patient_id ?s" by blast
    moreover have "map patient_id ?s = [Some 7]" by code_simp
    ultimately show ?thesis using l by simp
  qed
  have c: "fst (create_or_update_bed (Object ?d) [])
             = Inr (Response 201 ''Bed created'' (Some (bed_101 (Some ''Occupied'') None)))"
    by code_simp
  from t0 c have 2: "patient_id (bed_101 (Some ''Occupied'') None) = None" by blast
  have h3: "\<forall>q\<in>set ?rqs. \<forall>bd. q \<noteq> PostAssignBed bd" by simp
  have r: "run ?rqs = [bed_101 (Some ''Occupied'') None]" by code_simp
  from t h3 have "\<forall>x\<in>set (run ?rqs). patient_id x = None" by blast
  then have 3: "map patient_id (run ?rqs) = [None]" unfolding r by simp
  show ?thesis using 1 2 3 by simp
qed

section \<open>C4: the statuses of reachable tables\<close>

lemma status_ok_db_update:
  "status_ok s \<Longrightarrow> status r = Some ''Available'' \<or> status r = Some ''Occupied'' \<Longrightarrow>
   status_ok (db_update r s)"
  unfolding status_ok_def by (blast dest: set_db_update)

lemma status_ok_upsert:
  assumes "status_ok s" "st = Some ''Available'' \<or> st = Some ''Occupied''"
  shows "status_ok (snd (upsert_bed b w st s))"
  using upsert_bed_cases[of b w st s]
proof (elim disjE exE conjE)
  assume "snd (upsert_bed b w st s) = s"
  then show ?thesis using assms by simp
next
  fix r :: bed
  let ?r' = "r\<lparr>status := st, patient_id := (if st = Some ''Available'' then None else patient_id r)\<rparr>"
  assume "snd (upsert_bed b w st s) = db_update ?r' s"
  moreover have "status_ok (db_update ?r' s)"
    using assms by (intro status_ok_db_update) simp_all
  ultimately show ?thesis by simp
next
  assume "snd (upsert_bed b w st s) =
        s @ [\<lparr>bed_no = b, ward = Some w,
               status = (case st of None \<Rightarrow> Some ''Available'' | Some x \<Rightarrow> Some x),
               patient_id = None\<rparr>]"
  then show ?thesis using assms by (auto simp: status_ok_def)
qed

lemma status_ok_step:
  assumes "status_ok s" "status_known rq"
  shows "status_ok (step s rq)"
proof (cases rq)
  case GetBeds
  then show ?thesis using assms by simp
next
  case (PostBeds x)
  from create_or_update_bed_cases[of x s] show ?thesis
  proof (elim disjE exE conjE)
    assume "snd (create_or_update_bed x s) = s"
    then show ?thesis using assms PostBeds by simp
  next
    fix d b w
    assume x: "x = Object d"
      and u: "snd (create_or_update_bed x s) =
            snd (upsert_bed b w (dict_get_default (p_status d) ''Available'') s)"
    have "dict_get_default (p_status d) ''Available'' = Some ''Available''
          \<or> dict_get_default (p_status d) ''Available'' = Some ''Occupied''"
      using assms(2) PostBeds x by (auto simp: status_known_def)
    then show ?thesis using assms(1) PostBeds u by (simp add: status_ok_upsert)
  qed
next
  case (PostAssignBed x)
  from assign_bed_cases[of x s] show ?thesis
  proof (elim disjE exE conjE)
    assume "snd (assign_bed x s) = s"
    then show ?thesis using assms PostAssignBed by simp
  next
    fix r :: bed and p :: int
    let ?r' = "r\<lparr>status := Some ''Occupied'', patient_id := Some p\<rparr>"
    assume "snd (assign_bed x s) = db_update ?r' s"
    moreover have "status_ok (db_update ?r' s)"
      using assms(1) by (rule status_ok_db_update) simp
    ultimately show ?thesis using PostAssignBed by simp
  qed
qed

text \<open>
  C4, as amended. POST /assign-bed only ever writes the status "Occupied", and POST /beds
  writes the status it is given ("Available" when the payload has no status key). So in
  every table reached from the empty one through requests whose POST /beds payloads have
  no status key, or the status "Available" or "Occupied", every bed has the status
  "Available" or "Occupied".
\<close>

theorem status_available_or_occupied:
  assumes "\<forall>q\<in>set rqs. status_known q"
  shows "\<forall>x\<in>set (get_beds (run rqs)). status x = Some ''Available'' \<or> status x = Some ''Occupied''"
proof -
  have "status_ok (run rqs)" using assms
  proof (induction rqs rule: rev_induct)
    case Nil
    show ?case by (simp add: run_Nil status_ok_def)
  next
    case (snoc rq rqs)
    then show ?case by (simp add: run_snoc status_ok_step)
  qed
  then show ?thesis by (simp add: status_ok_def get_beds_def)
qed

theorem status_available_or_occupied_witness:
  "list_all (\<lambda>x. status x = Some ''Available'' \<or> status x = Some ''Occupied'')
     (get_beds (run [PostBeds (Object (no_keys\<lparr>p_bed_no := Val ''101'', p_ward := Val ''Ward A''\<rparr>)),
                     PostAssignBed (Object (no_keys\<lparr>p_bed_no := Val ''101'', p_ward := Val ''A'',
                                                    p_patient_id := Val 7\<rparr>)),
                     GetBeds]))
   \<and> get_beds (run [PostBeds (Object (no_keys\<lparr>p_bed_no := Val ''101'', p_ward := Val ''Ward A''\<rparr>)),
                    PostAssignBed (Object (no_keys\<lparr>p_bed_no := Val ''101'', p_ward := Val ''A'',
                                                   p_patient_id := Val 7\<rparr>)),
                    GetBeds])
     = [bed_101 (Some ''Occupied'') (Some 7)]"
proof -
  let ?rqs = "[PostBeds (Object (no_keys\<lparr>p_bed_no := Val ''101'', p_ward := Val ''Ward A''\<rparr>)),
               PostAssignBed (Object (no_keys\<lparr>p_bed_no := Val ''101'', p_ward := Val ''A'',
                                              p_patient_id := Val 7\<rparr>)),
               GetBeds]"
  have h: "\<forall>q\<in>set ?rqs. status_known q" by code_simp
  have 1: "list_all (\<lambda>x. status x = Some ''Available'' \<or> status x = Some ''Occupied'')
             (get_beds (run ?rqs))"
    using status_available_or_occupied[OF h] by (simp add: list_all_iff)
  have 2: "get_beds (run ?rqs) = [bed_101 (Some ''Occupied'') (Some 7)]" by code_simp
  show ?thesis using 1 2 by (rule conjI)
qed

text \<open>
  The claim as stated fails: POST /beds stores any status it is given, on a new bed as
  on an existing one.
\<close>

theorem status_counterexample:
  "map status (get_beds (run [PostBeds (Object (no_keys\<lparr>p_bed_no := Val ''101'', p_ward := Val ''Ward A'',
                                     p_status := Val ''Maintenance''\<rparr>))]))
     = [Some ''Maintenance'']"
  by code_simp


section \<open>C8: assigning a bed that is not occupied\<close>

text \<open>
  C8, as amended. When a POST /assign-bed request passes validation, with a patient id
  that an SQLite INTEGER can hold (a signed 64-bit integer), resolves to a bed r and
  finds its status other than "Occupied", the handler sets the status of r to "Occupied"
  and its patient_id to the patient id of the request, commits the row, and replies 200
  with msg "Bed assigned" and the fields of the updated record: the bed_no and ward of
  r, status "Occupied" and the patient id. The committed row is the one GET /beds then
  shows under that bed_no.
\<close>

theorem assign_bed_success:
  assumes "or_str (dict_get (p_bed_no d)) (dict_get (p_bedNo d)) = Some b" "b \<noteq> []"
    and "dict_get (p_ward d) = Some w" "w \<noteq> []"
    and "or_int (dict_get (p_patient_id d)) (dict_get (p_patientId d)) = Some p" "p \<noteq> 0"
    and "sqlite_int_ok p"
    and "resolve_bed s b w = Inr (Some r)"
    and "status r \<noteq> Some ''Occupied''"
  shows "assign_bed (Object d) s =
           (Inr (Response 200 ''Bed assigned''
                  (Some (r\<lparr>status := Some ''Occupied'', patient_id := Some p\<rparr>))),
            db_update (r\<lparr>status := Some ''Occupied'', patient_id := Some p\<rparr>) s)
         \<and> find (\<lambda>x. bed_no x = bed_no r) (get_beds (snd (assign_bed (Object d) s))) =
             Some \<lparr>bed_no = bed_no r, ward = ward r, status = Some ''Occupied'',
                   patient_id = Some p\<rparr>"
proof -
  let ?r' = "r\<lparr>status := Some ''Occupied'', patient_id := Some p\<rparr>"
  have "assign_bed (Object d) s = assign_resolved b w p s"
    using assms(1-6) by (rule assign_bed_valid)
  then have 1: "assign_bed (Object d) s =
                  (Inr (Response 200 ''Bed assigned'' (Some ?r')), db_update ?r' s)"
    using assms(7-9) by (simp add: assign_resolved_def Let_def)
  have "r \<in> set s" using assms(8) by (rule resolve_bed_SomeD)
  then have "find (\<lambda>x. bed_no x = bed_no r) (db_update ?r' s) = Some ?r'"
    by (rule find_key_db_update) simp
  with 1 show ?thesis by (simp add: get_beds_def)
qed

theorem assign_bed_success_witness:
  "assign_bed (Object (no_keys\<lparr>p_bed_no := Val ''101'', p_ward := Val ''Ward A'',
                              p_patient_id := Val 7\<rparr>))
     [bed_101 (Some ''Available'') None]
   = (Inr (Response 200 ''Bed assigned'' (Some (bed_101 (Some ''Occupied'') (Some 7)))),
      [bed_101 (Some ''Occupied'') (Some 7)])"
proof -
  let ?d = "no_keys\<lparr>p_bed_no := Val ''101'', p_ward := Val ''Ward A'', p_patient_id := Val 7\<rparr>"
  let ?r = "bed_101 (Some ''Available'') None"
  have 1: "or_str (dict_get (p_bed_no ?d)) (dict_get (p_bedNo ?d)) = Some ''101''" by code_simp
  have 2: "dict_get (p_ward ?d) = Some ''Ward A''" by code_simp
  have 3: "or_int (dict_get (p_patient_id ?d)) (dict_get (p_patientId ?d)) = Some 7" by code_simp
  have i: "sqlite_int_ok 7" by (simp add: sqlite_int_ok_def)
  have 4: "resolve_bed [?r] ''101'' ''Ward A'' = Inr (Some ?r)" by code_simp
  have 5: "status ?r \<noteq> Some ''Occupied''" by code_simp
  have 6: "?r\<lparr>status := Some ''Occupied'', patient_id := Some 7\<rparr>
             = bed_101 (Some ''Occupied'') (Some 7)"
    by (simp add: bed_101_def)
  have 7: "db_update (bed_101 (Some ''Occupied'') (Some 7)) [?r]
             = [bed_101 (Some ''Occupied'') (Some 7)]"
    by code_simp
  show ?thesis
    using assign_bed_success[OF 1 _ 2 _ 3 _ i 4 5] by (simp add: 6 7)
qed

text \<open>
  The claim as stated fails: the patient id 2^63 passes validation and the request
  resolves to a bed that is Available, yet nothing is stored and the reply is not 200:
  the commit raises OverflowError.
\<close>

theorem assign_bed_overflow_counterexample:
  "resolve_bed [bed_101 (Some ''Available'') None] ''101'' ''Ward A''
     = Inr (Some (bed_101 (Some ''Available'') None))
   \<and> assign_bed (Object (no_keys\<lparr>p_bed_no := Val ''101'', p_ward := Val ''Ward A'',
                                  p_patient_id := Val 9223372036854775808\<rparr>))
        [bed_101 (Some ''Available'') None]
     = (Inl OverflowError, [bed_101 (Some ''Available'') None])"
  by code_simp


section \<open>C2: snake_case and camelCase keys\<close>

text \<open>
  C2, as amended. POST /assign-bed accepts the bed number and the patient id under the
  snake_case key or under the camelCase key, with the same result. When both keys are
  present, the value of the snake_case key is used if it is true in Python (a non-empty
  string, a non-zero integer), whatever the camelCase key holds; otherwise (an empty
  string, 0 or null) the value of the camelCase key is used, as if the snake_case key
  were absent. In particular a request whose values, taken so, name a bed that is not
  Occupied and a patient id that fits the column is answered 200 for that bed and that
  patient.
\<close>

theorem assign_bed_key_aliases:
  "assign_bed (Object (d\<lparr>p_bed_no := Val v, p_bedNo := Absent\<rparr>)) s
     = assign_bed (Object (d\<lparr>p_bed_no := Absent, p_bedNo := Val v\<rparr>)) s
   \<and> assign_bed (Object (d\<lparr>p_patient_id := Val n, p_patientId := Absent\<rparr>)) s
     = assign_bed (Object (d\<lparr>p_patient_id := Absent, p_patientId := Val n\<rparr>)) s
   \<and> (v \<noteq> [] \<longrightarrow>
        assign_bed (Object (d\<lparr>p_bed_no := Val v, p_bedNo := x\<rparr>)) s
          = assign_bed (Object (d\<lparr>p_bed_no := Val v, p_bedNo := Absent\<rparr>)) s)
   \<and> (n \<noteq> 0 \<longrightarrow>
        assign_bed (Object (d\<lparr>p_patient_id := Val n, p_patientId := y\<rparr>)) s
          = assign_bed (Object (d\<lparr>p_patient_id := Val n, p_patientId := Absent\<rparr>)) s)
   \<and> assign_bed (Object (d\<lparr>p_bed_no := Val [], p_bedNo := Val v\<rparr>)) s
       = assign_bed (Object (d\<lparr>p_bed_no := Absent, p_bedNo := Val v\<rparr>)) s
   \<and> assign_bed (Object (d\<lparr>p_bed_no := Null, p_bedNo := Val v\<rparr>)) s
       = assign_bed (Object (d\<lparr>p_bed_no := Absent, p_bedNo := Val v\<rparr>)) s
   \<and> assign_bed (Object (d\<lparr>p_patient_id := Val 0, p_patientId := Val n\<rparr>)) s
       = assign_bed (Object (d\<lparr>p_patient_id := Absent, p_patientId := Val n\<rparr>)) s
   \<and> assign_bed (Object (d\<lparr>p_patient_id := Null, p_patientId := Val n\<rparr>)) s
       = assign_bed (Object (d\<lparr>p_patient_id := Absent, p_patientId := Val n\<rparr>)) s
   \<and> (v \<noteq> [] \<and> w \<noteq> [] \<and> n \<noteq> 0 \<and> sqlite_int_ok n \<and>
      resolve_bed s v w = Inr (Some r) \<and> status r \<noteq> Some ''Occupied'' \<longrightarrow>
        assign_bed (Object (d\<lparr>p_bed_no := Val v, p_bedNo := x, p_ward := Val w,
                              p_patient_id := Val n, p_patientId := y\<rparr>)) s
          = (Inr (Response 200 ''Bed assigned''
                   (Some (r\<lparr>status := Some ''Occupied'', patient_id := Some n\<rparr>))),
             db_update (r\<lparr>status := Some ''Occupied'', patient_id := Some n\<rparr>) s)
      \<and> (\<not> truthy_str (dict_get fb) \<and> \<not> truthy_int (dict_get fp) \<longrightarrow>
           assign_bed (Object (d\<lparr>p_bed_no := fb, p_bedNo := Val v, p_ward := Val w,
                                 p_patient_id := fp, p_patientId := Val n\<rparr>)) s
             = (Inr (Response 200 ''Bed assigned''
                      (Some (r\<lparr>status := Some ''Occupied'', patient_id := Some n\<rparr>))),
                db_update (r\<lparr>status := Some ''Occupied'', patient_id := Some n\<rparr>) s)))"
proof -
  have eqs: "assign_bed (Object (d\<lparr>p_bed_no := Val v, p_bedNo := Absent\<rparr>)) s
     = assign_bed (Object (d\<lparr>p_bed_no := Absent, p_bedNo := Val v\<rparr>)) s
   \<and> assign_bed (Object (d\<lparr>p_patient_id := Val n, p_patientId := Absent\<rparr>)) s
     = assign_bed (Object (d\<lparr>p_patient_id := Absent, p_patientId := Val n\<rparr>)) s
   \<and> (v \<noteq> [] \<longrightarrow>
        assign_bed (Object (d\<lparr>p_bed_no := Val v, p_bedNo := x\<rparr>)) s
          = assign_bed (Object (d\<lparr>p_bed_no := Val v, p_bedNo := Absent\<rparr>)) s)
   \<and> (n \<noteq> 0 \<longrightarrow>
        assign_bed (Object (d\<lparr>p_patient_id := Val n, p_patientId := y\<rparr>)) s
          = assign_bed (Object (d\<lparr>p_patient_id := Val n, p_patientId := Absent\<rparr>)) s)
   \<and> assign_bed (Object (d\<lparr>p_bed_no := Val [], p_bedNo := Val v\<rparr>)) s
       = assign_bed (Object (d\<lparr>p_bed_no := Absent, p_bedNo := Val v\<rparr>)) s
   \<and> assign_bed (Object (d\<lparr>p_bed_no := Null, p_bedNo := Val v\<rparr>)) s
       = assign_bed (Object (d\<lparr>p_bed_no := Absent, p_bedNo := Val v\<rparr>)) s
   \<and> assign_bed (Object (d\<lparr>p_patient_id := Val 0, p_patientId := Val n\<rparr>)) s
       = assign_bed (Object (d\<lparr>p_patient_id := Absent, p_patientId := Val n\<rparr>)) s
   \<and> assign_bed (Object (d\<lparr>p_patient_id := Null, p_patientId := Val n\<rparr>)) s
       = assign_bed (Object (d\<lparr>p_patient_id := Absent, p_patientId := Val n\<rparr>)) s"
    by (simp add: assign_bed_def is_empty_def or_str_def or_int_def Let_def)
  have acc: "v \<noteq> [] \<and> w \<noteq> [] \<and> n \<noteq> 0 \<and> sqlite_int_ok n \<and>
      resolve_bed s v w = Inr (Some r) \<and> status r \<noteq> Some ''Occupied'' \<longrightarrow>
        assign_bed (Object (d\<lparr>p_bed_no := Val v, p_bedNo := x, p_ward := Val w,
                              p_patient_id := Val n, p_patientId := y\<rparr>)) s
          = (Inr (Response 200 ''Bed assigned''
                   (Some (r\<lparr>status := Some ''Occupied'', patient_id := Some n\<rparr>))),
             db_update (r\<lparr>status := Some ''Occupied'', patient_id := Some n\<rparr>) s)
      \<and> (\<not> truthy_str (dict_get fb) \<and> \<not> truthy_int (dict_get fp) \<longrightarrow>
           assign_bed (Object (d\<lparr>p_bed_no := fb, p_bedNo := Val v, p_ward := Val w,
                                 p_patient_id := fp, p_patientId := Val n\<rparr>)) s
             = (Inr (Response 200 ''Bed assigned''
                      (Some (r\<lparr>status := Some ''Occupied'', patient_id := Some n\<rparr>))),
                db_update (r\<lparr>status := Some ''Occupied'', patient_id := Some n\<rparr>) s))"
  proof (intro impI conjI)
    assume a: "v \<noteq> [] \<and> w \<noteq> [] \<and> n \<noteq> 0 \<and> sqlite_int_ok n \<and>
      resolve_bed s v w = Inr (Some r) \<and> status r \<noteq> Some ''Occupied''"
    let ?out = "(Inr (Response 200 ''Bed assigned''
                   (Some (r\<lparr>status := Some ''Occupied'', patient_id := Some n\<rparr>))),
             db_update (r\<lparr>status := Some ''Occupied'', patient_id := Some n\<rparr>) s)"
    have res: "assign_resolved v w n s = ?out"
      using a by (simp add: assign_resolved_def Let_def)
    let ?d1 = "d\<lparr>p_bed_no := Val v, p_bedNo := x, p_ward := Val w,
                  p_patient_id := Val n, p_patientId := y\<rparr>"
    have "assign_bed (Object ?d1) s = assign_resolved v w n s"
      using a by (intro assign_bed_valid) (simp_all add: or_str_def or_int_def)
    then show "assign_bed (Object ?d1) s = ?out" using res by simp
    assume f: "\<not> truthy_str (dict_get fb) \<and> \<not> truthy_int (dict_get fp)"
    let ?d2 = "d\<lparr>p_bed_no := fb, p_bedNo := Val v, p_ward := Val w,
                  p_patient_id := fp, p_patientId := Val n\<rparr>"
    have "assign_bed (Object ?d2) s = assign_resolved v w n s"
      using a f by (intro assign_bed_valid) (simp_all add: or_str_def or_int_def)
    then show "assign_bed (Object ?d2) s = ?out" using res by simp
  qed
  show ?thesis using eqs acc by blast
qed

theorem assign_bed_key_aliases_witness:
  "assign_bed (Object (no_keys\<lparr>p_bed_no := Val ''101'', p_bedNo := Val ''102'',
                              p_ward := Val ''Ward A'',
                              p_patient_id := Val 7, p_patientId := Val 9\<rparr>))
     [bed_101 (Some ''Available'') None]
   = (Inr (Response 200 ''Bed assigned'' (Some (bed_101 (Some ''Occupied'') (Some 7)))),
      [bed_101 (Some ''Occupied'') (Some 7)])
   \<and> assign_bed (Object (no_keys\<lparr>p_bed_no := Null, p_bedNo := Val ''101'',
                                p_ward := Val ''Ward A'',
                                p_patient_id := Val 0, p_patientId := Val 7\<rparr>))
     [bed_101 (Some ''Available'') None]
   = (Inr (Response 200 ''Bed assigned'' (Some (bed_101 (Some ''Occupied'') (Some 7)))),
      [bed_101 (Some ''Occupied'') (Some 7)])"
proof -
  let ?r = "bed_101 (Some ''Available'') None"
  note t = assign_bed_key_aliases[where d = no_keys and v = "''101''" and s = "[?r]" and n = 7
                                   and x = "Val ''102''" and y = "Val 9" and w = "''Ward A''"
                                   and r = ?r and fb = Null and fp = "Val 0"]
  have h: "''101'' \<noteq> [] \<and> ''Ward A'' \<noteq> [] \<and> (7::int) \<noteq> 0 \<and> sqlite_int_ok 7 \<and>
           resolve_bed [?r] ''101'' ''Ward A'' = Inr (Some ?r) \<and> status ?r \<noteq> Some ''Occupied''"
    by code_simp
  have f: "\<not> truthy_str (dict_get (Null :: string field)) \<and> \<not> truthy_int (dict_get (Val 0))"
    by simp
  have e: "?r\<lparr>status := Some ''Occupied'', patient_id := Some 7\<rparr>
             = bed_101 (Some ''Occupied'') (Some 7)"
    by (simp add: bed_101_def)
  have u: "db_update (bed_101 (Some ''Occupied'') (Some 7)) [?r]
             = [bed_101 (Some ''Occupied'') (Some 7)]"
    by code_simp
  from t h have 1: "assign_bed (Object (no_keys\<lparr>p_bed_no := Val ''101'', p_bedNo := Val ''102'',
                              p_ward := Val ''Ward A'',
                              p_patient_id := Val 7, p_patientId := Val 9\<rparr>)) [?r]
      = (Inr (Response 200 ''Bed assigned''
               (Some (?r\<lparr>status := Some ''Occupied'', patient_id := Some 7\<rparr>))),
         db_update (?r\<lparr>status := Some ''Occupied'', patient_id := Some 7\<rparr>) [?r])"
    by blast
  from t h f have 2: "assign_bed (Object (no_keys\<lparr>p_bed_no := Null, p_bedNo := Val ''101'',
                                p_ward := Val ''Ward A'',
                                p_patient_id := Val 0, p_patientId := Val 7\<rparr>)) [?r]
      = (Inr (Response 200 ''Bed assigned''
               (Some (?r\<lparr>status := Some ''Occupied'', patient_id := Some 7\<rparr>))),
         db_update (?r\<lparr>status := Some ''Occupied'', patient_id := Some 7\<rparr>) [?r])"
    by blast
  show ?thesis using 1 2 by (simp only: e u)
qed

text \<open>
  The claim as stated fails: with both keys present and the snake_case values "" and 0,
  the bed and the patient of the camelCase keys are used, where the snake_case values
  alone are rejected. And POST /beds does not read the key bedNo.
\<close>

theorem assign_bed_key_aliases_counterexample:
  "assign_bed (Object (no_keys\<lparr>p_bed_no := Val '''', p_bedNo := Val ''101'', p_ward := Val ''Ward A'',
                                p_patient_id := Val 0, p_patientId := Val 7\<rparr>))
     [bed_101 (Some ''Available'') None]
   = (Inr (Response 200 ''Bed assigned'' (Some (bed_101 (Some ''Occupied'') (Some 7)))),
      [bed_101 (Some ''Occupied'') (Some 7)])
   \<and> assign_bed (Object (no_keys\<lparr>p_bed_no := Val '''', p_ward := Val ''Ward A'',
                                  p_patient_id := Val 0\<rparr>))
     [bed_101 (Some ''Available'') None]
   = (Inr (Response 400 ''bed_no, ward, and patient_id are required'' None),
      [bed_101 (Some ''Available'') None])
   \<and> create_or_update_bed (Object (no_keys\<lparr>p_bedNo := Val ''101'', p_ward := Val ''Ward A''\<rparr>)) []
   = (Inr (Response 400 ''bed_no and ward are required'' None), [])"
  by code_simp


section \<open>C5: how POST /assign-bed finds the bed\<close>

lemma str_in_iff: "str_in w t \<longleftrightarrow> (\<exists>pre post. t = pre @ w @ post)"
proof (induction t)
  case Nil
  show ?case by auto
next
  case (Cons c cs)
  show ?case
  proof
    assume "str_in w (c # cs)"
    then consider "take (length w) (c # cs) = w" | "str_in w cs" by auto
    then show "\<exists>pre post. c # cs = pre @ w @ post"
    proof cases
      case 1
      then have "c # cs = [] @ w @ drop (length w) (c # cs)"
        by (metis append_Nil append_take_drop_id)
      then show ?thesis by blast
    next
      case 2
      then obtain pre post where "cs = pre @ w @ post" using Cons.IH by blast
      then have "c # cs = (c # pre) @ w @ post" by simp
      then show ?thesis by blast
    qed
  next
    assume "\<exists>pre post. c # cs = pre @ w @ post"
    then obtain pre post where e: "c # cs = pre @ w @ post" by blast
    show "str_in w (c # cs)"
    proof (cases pre)
      case Nil
      then have "take (length w) (c # cs) = w" using e by simp
      then show ?thesis by simp
    next
      case (Cons a pre')
      then have "cs = pre' @ w @ post" using e by simp
      then have "str_in w cs" using Cons.IH by blast
      then show ?thesis by simp
    qed
  qed
qed

lemma ci_in_iff:
  "ci_in w t \<longleftrightarrow>
     (\<exists>pre m post. t = pre @ m @ post \<and> map ascii_lower m = map ascii_lower w)"
proof
  assume "ci_in w t"
  then obtain P Q where "map ascii_lower t = P @ map ascii_lower w @ Q"
    unfolding ci_in_def str_in_iff by blast
  then obtain pre rest where 1: "t = pre @ rest" "map ascii_lower rest = map ascii_lower w @ Q"
    by (metis map_eq_append_conv)
  then obtain m post where "rest = m @ post" "map ascii_lower m = map ascii_lower w"
    by (metis map_eq_append_conv)
  then show "\<exists>pre m post. t = pre @ m @ post \<and> map ascii_lower m = map ascii_lower w"
    using 1 by blast
next
  assume "\<exists>pre m post. t = pre @ m @ post \<and> map ascii_lower m = map ascii_lower w"
  then obtain pre m post where "t = pre @ m @ post" "map ascii_lower m = map ascii_lower w"
    by blast
  then have "map ascii_lower t = map ascii_lower pre @ map ascii_lower w @ map ascii_lower post"
    by simp
  then show "ci_in w t" unfolding ci_in_def str_in_iff by blast
qed

lemma str_in_ci_in: "str_in w t \<Longrightarrow> ci_in w t"
  unfolding str_in_iff ci_in_iff by blast

lemma like_match_percent:
  "like_match (CHR ''%'' # q) t \<longleftrightarrow> (\<exists>pre rest. t = pre @ rest \<and> like_match q rest)"
proof (induction t)
  case Nil
  show ?case by simp
next
  case (Cons c cs)
  have "like_match (CHR ''%'' # q) (c # cs) \<longleftrightarrow> like_match q (c # cs) \<or> like_match (CHR ''%'' # q) cs"
    by simp
  also have "\<dots> \<longleftrightarrow> like_match q (c # cs) \<or> (\<exists>pre rest. cs = pre @ rest \<and> like_match q rest)"
    using Cons.IH by simp
  also have "\<dots> \<longleftrightarrow> (\<exists>pre rest. c # cs = pre @ rest \<and> like_match q rest)"
  proof
    assume "like_match q (c # cs) \<or> (\<exists>pre rest. cs = pre @ rest \<and> like_match q rest)"
    then show "\<exists>pre rest. c # cs = pre @ rest \<and> like_match q rest"
    proof
      assume "like_match q (c # cs)"
      then have "c # cs = [] @ (c # cs) \<and> like_match q (c # cs)" by simp
      then show ?thesis by blast
    next
      assume "\<exists>pre rest. cs = pre @ rest \<and> like_match q rest"
      then obtain pre rest where "cs = pre @ rest" "like_match q rest" by blast
      then have "c # cs = (c # pre) @ rest \<and> like_match q rest" by simp
      then show ?thesis by blast
    qed
  next
    assume "\<exists>pre rest. c # cs = pre @ rest \<and> like_match q rest"
    then obtain pre rest where e: "c # cs = pre @ rest" "like_match q rest" by blast
    show "like_match q (c # cs) \<or> (\<exists>pre rest. cs = pre @ rest \<and> like_match q rest)"
    proof (cases pre)
      case Nil
      then show ?thesis using e by simp
    next
      case (Cons a pre')
      then have "cs = pre' @ rest" using e by simp
      then show ?thesis using e(2) by blast
    qed
  qed
  finally show ?case .
qed

lemma like_match_percent_all: "like_match ''%'' t"
  by (induction t) simp_all

lemma like_match_literal:
  assumes "CHR ''%'' \<notin> set w" "CHR ''_'' \<notin> set w"
  shows "like_match (w @ q) t \<longleftrightarrow>
           (\<exists>m rest. t = m @ rest \<and> map ascii_lower m = map ascii_lower w \<and> like_match q rest)"
  using assms
proof (induction w arbitrary: t)
  case Nil
  show ?case by simp
next
  case (Cons a w)
  then have a: "a \<noteq> CHR ''%''" "a \<noteq> CHR ''_''"
    and w: "CHR ''%'' \<notin> set w" "CHR ''_'' \<notin> set w"
    by auto
  show ?case
  proof (cases t)
    case Nil
    then show ?thesis using a by simp
  next
    case (Cons c cs)
    have "like_match ((a # w) @ q) (c # cs) \<longleftrightarrow> ascii_lower a = ascii_lower c \<and> like_match (w @ q) cs"
      using a by simp
    also have "\<dots> \<longleftrightarrow> ascii_lower a = ascii_lower c \<and>
        (\<exists>m rest. cs = m @ rest \<and> map ascii_lower m = map ascii_lower w \<and> like_match q rest)"
      using Cons.IH[OF w] by simp
    also have "\<dots> \<longleftrightarrow> (\<exists>m rest. c # cs = m @ rest \<and>
          map ascii_lower m = map ascii_lower (a # w) \<and> like_match q rest)"
    proof
      assume "ascii_lower a = ascii_lower c \<and>
        (\<exists>m rest. cs = m @ rest \<and> map ascii_lower m = map ascii_lower w \<and> like_match q rest)"
      then obtain m rest where "ascii_lower a = ascii_lower c" "cs = m @ rest"
          "map ascii_lower m = map ascii_lower w" "like_match q rest"
        by blast
      then have "c # cs = (c # m) @ rest \<and> map ascii_lower (c # m) = map ascii_lower (a # w)
                 \<and> like_match q rest"
        by simp
      then show "\<exists>m rest. c # cs = m @ rest \<and>
          map ascii_lower m = map ascii_lower (a # w) \<and> like_match q rest"
        by blast
    next
      assume "\<exists>m rest. c # cs = m @ rest \<and>
          map ascii_lower m = map ascii_lower (a # w) \<and> like_match q rest"
      then obtain m rest where e: "c # cs = m @ rest"
          "map ascii_lower m = map ascii_lower (a # w)" "like_match q rest"
        by blast
      then obtain c' m' where m: "m = c' # m'" by (cases m) auto
      then have "c' = c" "cs = m' @ rest" "ascii_lower c' = ascii_lower a"
          "map ascii_lower m' = map ascii_lower w"
        using e by auto
      then show "ascii_lower a = ascii_lower c \<and>
        (\<exists>m rest. cs = m @ rest \<and> map ascii_lower m = map ascii_lower w \<and> like_match q rest)"
        using e(3) by auto
    qed
    finally show ?thesis using Cons by simp
  qed
qed

lemma like_match_contains:
  assumes "CHR ''%'' \<notin> set w" "CHR ''_'' \<notin> set w"
  shows "like_match (CHR ''%'' # w @ ''%'') t \<longleftrightarrow> ci_in w t"
proof -
  have "like_match (CHR ''%'' # w @ ''%'') t \<longleftrightarrow>
          (\<exists>pre rest. t = pre @ rest \<and> like_match (w @ ''%'') rest)"
    by (rule like_match_percent)
  also have "\<dots> \<longleftrightarrow> (\<exists>pre rest. t = pre @ rest \<and>
       (\<exists>m post. rest = m @ post \<and> map ascii_lower m = map ascii_lower w))"
    using like_match_literal[OF assms, of "''%''"] like_match_percent_all by simp
  also have "\<dots> \<longleftrightarrow> ci_in w t"
    unfolding ci_in_iff by blast
  finally show ?thesis .
qed

lemma cstr_no_nul: "no_nul t \<Longrightarrow> cstr t = t"
  by (auto simp: cstr_def no_nul_def takeWhile_eq_all_conv)

lemma percent_not_nul: "CHR ''%'' \<noteq> nul"
  by (simp add: nul_def)

lemma ward_contains_plain:
  assumes "plain_ward w" "no_nul x"
  shows "ward_contains (Some x) w \<longleftrightarrow> ci_in w x"
proof -
  have "no_nul (''%'' @ w @ ''%'')"
    using assms(1) percent_not_nul by (auto simp: plain_ward_def no_nul_def)
  then have "cstr (''%'' @ w @ ''%'') = CHR ''%'' # w @ ''%''"
    using cstr_no_nul by fastforce
  moreover have "cstr x = x" using assms(2) by (rule cstr_no_nul)
  ultimately have "ward_contains (Some x) w \<longleftrightarrow> like_match (CHR ''%'' # w @ ''%'') x"
    by (simp add: ward_contains_def sql_like_def)
  then show ?thesis
    using assms(1) like_match_contains[of w x] by (simp add: plain_ward_def)
qed

lemma utf8_len_append: "utf8_len (a @ b) = utf8_len a + utf8_len b"
  by (simp add: utf8_len_def)

lemma utf8_len_percent: "utf8_len ''%'' = 1"
  by code_simp

lemma utf8_len_pattern: "utf8_len (''%'' @ w @ ''%'') = utf8_len w + 2"
proof -
  have "utf8_len (''%'' @ (w @ ''%'')) = utf8_len ''%'' + (utf8_len w + utf8_len ''%'')"
    by (simp only: utf8_len_append)
  then show ?thesis by (simp add: utf8_len_percent)
qed

lemma query_fuzzy_plain:
  assumes "plain_ward w"
  shows "query_fuzzy s b w = Inr (find (\<lambda>r. bed_no r = b \<and> ward_contains (ward r) w) s)"
proof -
  have "\<not> like_limit < utf8_len (''%'' @ w @ ''%'')"
    using assms unfolding utf8_len_pattern by (simp add: plain_ward_def)
  then show ?thesis by (simp add: query_fuzzy_def)
qed

lemma query_exact_row:
  assumes "pk_ok s" "r \<in> set s" "bed_no r = b" "ward r = Some w"
  shows "query_exact s b w = Some r"
proof (cases "query_exact s b w")
  case None
  then show ?thesis using assms by (auto simp: query_exact_def find_None_iff)
next
  case (Some r0)
  then have "r0 \<in> set s" "bed_no r0 = b" by (auto dest: query_exact_SomeD)
  then have "r0 = r" using assms pk_row_eq[of s r0 r] by simp
  then show ?thesis using Some by simp
qed

lemma find_row:
  assumes "pk_ok s" "r \<in> set s" "bed_no r = b" "P r"
  shows "find (\<lambda>x. bed_no x = b \<and> P x) s = Some r"
proof (cases "find (\<lambda>x. bed_no x = b \<and> P x) s")
  case None
  then show ?thesis using assms by (auto simp: find_None_iff)
next
  case (Some r0)
  then have "r0 \<in> set s" "bed_no r0 = b" by (auto simp: find_Some_iff)
  then have "r0 = r" using assms pk_row_eq[of s r0 r] by simp
  then show ?thesis using Some by simp
qed

lemma assign_too_long:
  assumes "or_str (dict_get (p_bed_no d)) (dict_get (p_bedNo d)) = Some b" "b \<noteq> []"
    and "dict_get (p_ward d) = Some w" "w \<noteq> []"
    and "or_int (dict_get (p_patient_id d)) (dict_get (p_patientId d)) = Some p" "p \<noteq> 0"
    and "query_exact s b w = None" "\<exists>r\<in>set s. bed_no r = b"
    and "like_limit < utf8_len w + 2"
  shows "assign_bed (Object d) s = (Inl OperationalError, s)"
proof -
  have "assign_bed (Object d) s = assign_resolved b w p s"
    using assms(1-6) by (rule assign_bed_valid)
  moreover have "query_fuzzy s b w = Inl OperationalError"
    using assms(8,9) unfolding query_fuzzy_def utf8_len_pattern by simp
  ultimately show ?thesis using assms(7)
    by (simp add: assign_resolved_def resolve_bed_def)
qed

lemma utf8_len_replicate_A: "utf8_len (replicate n (CHR ''A'')) = int n"
proof (induction n)
  case 0
  show ?case by (simp add: utf8_len_def)
next
  case (Suc n)
  have "utf8_len ''A'' = 1" by code_simp
  then have "utf8_len (CHR ''A'' # replicate n (CHR ''A'')) = 1 + utf8_len (replicate n (CHR ''A''))"
    using utf8_len_append[of "''A''" "replicate n (CHR ''A'')"] by simp
  then show ?case using Suc by simp
qed

lemma str_in_length: "str_in w t \<Longrightarrow> length w \<le> length t"
  unfolding str_in_iff by auto

lemma assign_long_ward:
  assumes "49999 \<le> n"
  shows "\<not> str_in (replicate n (CHR ''A'')) ''Ward A''
       \<and> query_exact [bed_101 (Some ''Available'') None] ''101'' (replicate n (CHR ''A'')) = None
       \<and> assign_bed (Object (no_keys\<lparr>p_bed_no := Val ''101'',
                                      p_ward := Val (replicate n (CHR ''A'')),
                                      p_patient_id := Val 7\<rparr>))
            [bed_101 (Some ''Available'') None]
         = (Inl OperationalError, [bed_101 (Some ''Available'') None])"
proof -
  let ?w = "replicate n (CHR ''A'')"
  let ?d = "no_keys\<lparr>p_bed_no := Val ''101'', p_ward := Val ?w, p_patient_id := Val 7\<rparr>"
  let ?s = "[bed_101 (Some ''Available'') None]"
  have len: "length ?w \<noteq> length ''Ward A''" using assms by simp
  then have ne: "''Ward A'' \<noteq> ?w" by metis
  have 1: "\<not> str_in ?w ''Ward A''"
  proof
    assume "str_in ?w ''Ward A''"
    then have "length ?w \<le> length ''Ward A''" by (rule str_in_length)
    then show False using assms by simp
  qed
  have 2: "query_exact ?s ''101'' ?w = None"
    using ne by (simp add: query_exact_def bed_101_def)
  have w0: "?w \<noteq> []" using assms by auto
  have v1: "or_str (dict_get (p_bed_no ?d)) (dict_get (p_bedNo ?d)) = Some ''101''"
    by (simp add: no_keys_def or_str_def)
  have v2: "dict_get (p_ward ?d) = Some ?w" by simp
  have v3: "or_int (dict_get (p_patient_id ?d)) (dict_get (p_patientId ?d)) = Some 7"
    by (simp add: no_keys_def or_int_def)
  have ex: "\<exists>r\<in>set ?s. bed_no r = ''101''" by (simp add: bed_101_def)
  have lim: "like_limit < utf8_len ?w + 2"
    using assms by (simp add: utf8_len_replicate_A like_limit_def)
  have n1: "''101'' \<noteq> []" and n4: "(7::int) \<noteq> 0" by simp_all
  have 3: "assign_bed (Object ?d) ?s = (Inl OperationalError, ?s)"
    using v1 n1 v2 w0 v3 n4 2 ex lim by (rule assign_too_long)
  show ?thesis using 1 2 3 by (intro conjI)
qed

text \<open>
  C5, as amended. Take a POST /assign-bed request that passes validation (bed number b,
  ward w, patient p), whose ward has no U+0000, no \<open>%\<close> and no \<open>_\<close> and is at most
  49998 bytes long in UTF-8, on a table that satisfies the primary key and whose wards
  have no U+0000. A row with bed_no b and ward w is the bed the request resolves to;
  when there is none, a row with bed_no b whose ward contains w, without regard to the
  case of ASCII letters, is; and a bed the request resolves to is always such a row.
  The request is then answered for that bed: 400 if it is Occupied, 200 otherwise (for a
  patient id that fits the column). When no row with bed_no b has a ward that contains w
  in this sense, the reply is 404 with the msg naming b and w, and the table is
  unchanged. A ward of which w is a case-sensitive substring contains w in this sense,
  so a bed stored with ward "Ward A" is resolved for ward "A".
\<close>

theorem assign_bed_resolution:
  assumes "or_str (dict_get (p_bed_no d)) (dict_get (p_bedNo d)) = Some b" "b \<noteq> []"
    and "dict_get (p_ward d) = Some w" "w \<noteq> []"
    and "or_int (dict_get (p_patient_id d)) (dict_get (p_patientId d)) = Some p" "p \<noteq> 0"
    and "pk_ok s"
    and "plain_ward w"
    and "\<forall>r\<in>set s. \<forall>x. ward r = Some x \<longrightarrow> no_nul x"
  shows "(\<forall>r\<in>set s. bed_no r = b \<and> ward r = Some w \<longrightarrow> resolve_bed s b w = Inr (Some r))
       \<and> (\<forall>r\<in>set s. \<forall>x. query_exact s b w = None \<and> bed_no r = b \<and> ward r = Some x \<and> ci_in w x
                     \<longrightarrow> resolve_bed s b w = Inr (Some r))
       \<and> (\<forall>r. resolve_bed s b w = Inr (Some r) \<longrightarrow>
              r \<in> set s \<and> bed_no r = b \<and> (\<exists>x. ward r = Some x \<and> ci_in w x))
       \<and> (\<forall>r. resolve_bed s b w = Inr (Some r) \<and> status r = Some ''Occupied'' \<longrightarrow>
              assign_bed (Object d) s = (Inr (Response 400 ''Bed already occupied'' None), s))
       \<and> (\<forall>r. resolve_bed s b w = Inr (Some r) \<and> status r \<noteq> Some ''Occupied'' \<and> sqlite_int_ok p \<longrightarrow>
              fst (assign_bed (Object d) s) =
                Inr (Response 200 ''Bed assigned''
                      (Some (r\<lparr>status := Some ''Occupied'', patient_id := Some p\<rparr>))))
       \<and> ((\<forall>r\<in>set s. \<forall>x. bed_no r = b \<and> ward r = Some x \<longrightarrow> \<not> ci_in w x) \<longrightarrow>
              assign_bed (Object d) s =
                (Inr (Response 404 (''Bed not found with bed_no='' @ b @ '' and ward='' @ w) None), s))
       \<and> (\<forall>x. str_in w x \<longrightarrow> ci_in w x)"
proof -
  have ab: "assign_bed (Object d) s = assign_resolved b w p s"
    using assms(1-6) by (rule assign_bed_valid)
  have fz: "query_fuzzy s b w = Inr (find (\<lambda>r. bed_no r = b \<and> ward_contains (ward r) w) s)"
    using assms(8) by (rule query_fuzzy_plain)
  have wc: "\<And>r x. r \<in> set s \<Longrightarrow> ward r = Some x \<Longrightarrow> ward_contains (ward r) w \<longleftrightarrow> ci_in w x"
    using assms(8,9) ward_contains_plain by simp
  have c1: "\<forall>r\<in>set s. bed_no r = b \<and> ward r = Some w \<longrightarrow> resolve_bed s b w = Inr (Some r)"
  proof (intro ballI impI)
    fix r assume "r \<in> set s" "bed_no r = b \<and> ward r = Some w"
    then have "query_exact s b w = Some r" using assms(7) by (intro query_exact_row) simp_all
    then show "resolve_bed s b w = Inr (Some r)" by (simp add: resolve_bed_def)
  qed
  have c2: "\<forall>r\<in>set s. \<forall>x. query_exact s b w = None \<and> bed_no r = b \<and> ward r = Some x \<and> ci_in w x
                     \<longrightarrow> resolve_bed s b w = Inr (Some r)"
  proof (intro ballI allI impI)
    fix r x
    assume r: "r \<in> set s"
      and a: "query_exact s b w = None \<and> bed_no r = b \<and> ward r = Some x \<and> ci_in w x"
    then have "ward_contains (ward r) w" using wc by simp
    then have "find (\<lambda>r. bed_no r = b \<and> ward_contains (ward r) w) s = Some r"
      using assms(7) r a by (intro find_row) simp_all
    then show "resolve_bed s b w = Inr (Some r)"
      using a fz by (simp add: resolve_bed_def)
  qed
  have c3: "\<forall>r. resolve_bed s b w = Inr (Some r) \<longrightarrow>
              r \<in> set s \<and> bed_no r = b \<and> (\<exists>x. ward r = Some x \<and> ci_in w x)"
  proof (intro allI impI)
    fix r assume r: "resolve_bed s b w = Inr (Some r)"
    then have m: "r \<in> set s" "bed_no r = b" by (auto dest: resolve_bed_SomeD)
    have "\<exists>x. ward r = Some x \<and> ci_in w x"
    proof (cases "query_exact s b w")
      case (Some r0)
      then have "r0 = r" using r by (simp add: resolve_bed_def)
      then have "ward r = Some w" using Some query_exact_SomeD(3) by blast
      moreover have "ci_in w w"
      proof -
        have "w = [] @ w @ []" by simp
        then have "str_in w w" unfolding str_in_iff by blast
        then show ?thesis by (rule str_in_ci_in)
      qed
      ultimately show ?thesis by blast
    next
      case None
      then have "query_fuzzy s b w = Inr (Some r)" using r by (simp add: resolve_bed_def)
      then have "ward_contains (ward r) w" by (rule query_fuzzy_SomeD)
      then obtain x where x: "ward r = Some x"
        by (cases "ward r") (auto simp: ward_contains_def)
      then have "ci_in w x" using wc m(1) \<open>ward_contains (ward r) w\<close> by simp
      then show ?thesis using x by blast
    qed
    then show "r \<in> set s \<and> bed_no r = b \<and> (\<exists>x. ward r = Some x \<and> ci_in w x)"
      using m by simp
  qed
  have c4: "\<forall>r. resolve_bed s b w = Inr (Some r) \<and> status r = Some ''Occupied'' \<longrightarrow>
              assign_bed (Object d) s = (Inr (Response 400 ''Bed already occupied'' None), s)"
    using ab by (simp add: assign_resolved_def)
  have c5: "\<forall>r. resolve_bed s b w = Inr (Some r) \<and> status r \<noteq> Some ''Occupied'' \<and> sqlite_int_ok p \<longrightarrow>
              fst (assign_bed (Object d) s) =
                Inr (Response 200 ''Bed assigned''
                      (Some (r\<lparr>status := Some ''Occupied'', patient_id := Some p\<rparr>)))"
    using ab by (simp add: assign_resolved_def Let_def)
  have c6: "(\<forall>r\<in>set s. \<forall>x. bed_no r = b \<and> ward r = Some x \<longrightarrow> \<not> ci_in w x) \<longrightarrow>
              assign_bed (Object d) s =
                (Inr (Response 404 (''Bed not found with bed_no='' @ b @ '' and ward='' @ w) None), s)"
  proof
    assume n: "\<forall>r\<in>set s. \<forall>x. bed_no r = b \<and> ward r = Some x \<longrightarrow> \<not> ci_in w x"
    have "resolve_bed s b w = Inr None"
    proof (cases "resolve_bed s b w")
      case (Inl e)
      then show ?thesis using fz by (simp add: resolve_bed_def split: option.splits)
    next
      case (Inr found)
      show ?thesis
      proof (cases found)
        case None
        then show ?thesis using Inr by simp
      next
        case (Some r)
        then have "r \<in> set s \<and> bed_no r = b \<and> (\<exists>x. ward r = Some x \<and> ci_in w x)"
          using c3 Inr by simp
        then show ?thesis using n by blast
      qed
    qed
    then show "assign_bed (Object d) s =
                (Inr (Response 404 (''Bed not found with bed_no='' @ b @ '' and ward='' @ w) None), s)"
      using ab by (simp add: assign_resolved_def)
  qed
  have c7: "\<forall>x. str_in w x \<longrightarrow> ci_in w x"
    using str_in_ci_in by blast
  show ?thesis using c1 c2 c3 c4 c5 c6 c7 by (intro conjI)
qed

theorem assign_bed_resolution_witness:
  "resolve_bed [bed_101 (Some ''Available'') None] ''101'' ''A''
     = Inr (Some (bed_101 (Some ''Available'') None))
   \<and> fst (assign_bed (Object (no_keys\<lparr>p_bed_no := Val ''101'', p_ward := Val ''A'',
                                       p_patient_id := Val 7\<rparr>))
            [bed_101 (Some ''Available'') None])
     = Inr (Response 200 ''Bed assigned'' (Some (bed_101 (Some ''Occupied'') (Some 7))))
   \<and> assign_bed (Object (no_keys\<lparr>p_bed_no := Val ''101'', p_ward := Val ''B'',
                                  p_patient_id := Val 7\<rparr>))
        [bed_101 (Some ''Available'') None]
     = (Inr (Response 404 ''Bed not found with bed_no=101 and ward=B'' None),
        [bed_101 (Some ''Available'') None])
   \<and> ci_in ''A'' ''Ward A''"
proof -
  let ?r = "bed_101 (Some ''Available'') None"
  let ?d = "no_keys\<lparr>p_bed_no := Val ''101'', p_ward := Val ''A'', p_patient_id := Val 7\<rparr>"
  let ?e = "no_keys\<lparr>p_bed_no := Val ''101'', p_ward := Val ''B'', p_patient_id := Val 7\<rparr>"
  have d1: "or_str (dict_get (p_bed_no ?d)) (dict_get (p_bedNo ?d)) = Some ''101''" by code_simp
  have d2: "dict_get (p_ward ?d) = Some ''A''" by code_simp
  have d3: "or_int (dict_get (p_patient_id ?d)) (dict_get (p_patientId ?d)) = Some 7" by code_simp
  have e1: "or_str (dict_get (p_bed_no ?e)) (dict_get (p_bedNo ?e)) = Some ''101''" by code_simp
  have e2: "dict_get (p_ward ?e) = Some ''B''" by code_simp
  have e3: "or_int (dict_get (p_patient_id ?e)) (dict_get (p_patientId ?e)) = Some 7" by code_simp
  have pk: "pk_ok [?r]" by code_simp
  have n1: "''101'' \<noteq> []" and n2: "''A'' \<noteq> []" and n3: "''B'' \<noteq> []"
    and n4: "(7::int) \<noteq> 0"
    by simp_all
  have pa: "plain_ward ''A''" and pb: "plain_ward ''B''" by code_simp+
  have nn: "\<forall>r\<in>set [?r]. \<forall>x. ward r = Some x \<longrightarrow> no_nul x"
    by (simp add: bed_101_def no_nul_def nul_def)
  note ta = assign_bed_resolution[OF d1 n1 d2 n2 d3 n4 pk pa nn]
  note tb = assign_bed_resolution[OF e1 n1 e2 n3 e3 n4 pk pb nn]
  have ci: "ci_in ''A'' ''Ward A''"
  proof -
    have "str_in ''A'' ''Ward A''" by code_simp
    then show ?thesis using ta by blast
  qed
  have f: "?r \<in> set [?r]" "query_exact [?r] ''101'' ''A'' = None \<and> bed_no ?r = ''101''
        \<and> ward ?r = Some ''Ward A''"
    by code_simp+
  have 1: "resolve_bed [?r] ''101'' ''A'' = Inr (Some ?r)"
    using ta f ci by blast
  have st: "status ?r \<noteq> Some ''Occupied''" "sqlite_int_ok 7" by code_simp+
  have u: "?r\<lparr>status := Some ''Occupied'', patient_id := Some 7\<rparr>
             = bed_101 (Some ''Occupied'') (Some 7)"
    by (simp add: bed_101_def)
  have "fst (assign_bed (Object ?d) [?r]) =
          Inr (Response 200 ''Bed assigned''
                      (Some (?r\<lparr>status := Some ''Occupied'', patient_id := Some 7\<rparr>)))"
    using ta 1 st by blast
  then have 2: "fst (assign_bed (Object ?d) [?r])
     = Inr (Response 200 ''Bed assigned'' (Some (bed_101 (Some ''Occupied'') (Some 7))))"
    using u by simp
  have g: "\<forall>r\<in>set [?r]. \<forall>x. bed_no r = ''101'' \<and> ward r = Some x \<longrightarrow> \<not> ci_in ''B'' x"
  proof -
    have "\<not> ci_in ''B'' ''Ward A''" by code_simp
    then show ?thesis by (simp add: bed_101_def)
  qed
  have "assign_bed (Object ?e) [?r]
     = (Inr (Response 404 (''Bed not found with bed_no='' @ ''101'' @ '' and ward='' @ ''B'') None),
        [?r])"
    using tb g by blast
  then have 3: "assign_bed (Object ?e) [?r]
     = (Inr (Response 404 ''Bed not found with bed_no=101 and ward=B'' None), [?r])"
    by simp
  show ?thesis using 1 2 3 ci by simp
qed

text \<open>
  The claim as stated fails. "WARD" is not a case-sensitive substring of "Ward A" and no
  bed 101 has the ward "WARD", yet the request is not answered 404: LIKE matches, and
  the bed of Ward A is assigned. Likewise the ward "W_rd%A", with its two wildcards,
  and a ward that starts with U+0000 resolve to the same bed. And a ward of 49999
  letters, for which both lookups of the claim fail, is not answered 404 either: the
  fuzzy query raises OperationalError.
\<close>

theorem assign_bed_fuzzy_counterexample:
  "(\<not> str_in ''WARD'' ''Ward A''
    \<and> query_exact [bed_101 (Some ''Available'') None] ''101'' ''WARD'' = None
    \<and> assign_bed (Object (no_keys\<lparr>p_bed_no := Val ''101'', p_ward := Val ''WARD'',
                                   p_patient_id := Val 7\<rparr>))
         [bed_101 (Some ''Available'') None]
      = (Inr (Response 200 ''Bed assigned'' (Some (bed_101 (Some ''Occupied'') (Some 7)))),
         [bed_101 (Some ''Occupied'') (Some 7)]))
   \<and> (\<not> str_in ''W_rd%A'' ''Ward A''
      \<and> resolve_bed [bed_101 (Some ''Available'') None] ''101'' ''W_rd%A''
        = Inr (Some (bed_101 (Some ''Available'') None)))
   \<and> (\<not> str_in [CHR 0x00, CHR ''z''] ''Ward A''
      \<and> resolve_bed [bed_101 (Some ''Available'') None] ''101'' [CHR 0x00, CHR ''z'']
        = Inr (Some (bed_101 (Some ''Available'') None)))
   \<and> (\<not> str_in (replicate 49999 (CHR ''A'')) ''Ward A''
      \<and> query_exact [bed_101 (Some ''Available'') None] ''101'' (replicate 49999 (CHR ''A'')) = None
      \<and> assign_bed (Object (no_keys\<lparr>p_bed_no := Val ''101'',
                                     p_ward := Val (replicate 49999 (CHR ''A'')),
                                     p_patient_id := Val 7\<rparr>))
           [bed_101 (Some ''Available'') None]
        = (Inl OperationalError, [bed_101 (Some ''Available'') None]))"
proof -
  have a: "\<not> str_in ''WARD'' ''Ward A''
    \<and> query_exact [bed_101 (Some ''Available'') None] ''101'' ''WARD'' = None
    \<and> assign_bed (Object (no_keys\<lparr>p_bed_no := Val ''101'', p_ward := Val ''WARD'',
                                   p_patient_id := Val 7\<rparr>))
         [bed_101 (Some ''Available'') None]
      = (Inr (Response 200 ''Bed assigned'' (Some (bed_101 (Some ''Occupied'') (Some 7)))),
         [bed_101 (Some ''Occupied'') (Some 7)])"
    by code_simp
  have b: "\<not> str_in ''W_rd%A'' ''Ward A''
      \<and> resolve_bed [bed_101 (Some ''Available'') None] ''101'' ''W_rd%A''
        = Inr (Some (bed_101 (Some ''Available'') None))"
    by code_simp
  have c: "\<not> str_in [CHR 0x00, CHR ''z''] ''Ward A''
      \<and> resolve_bed [bed_101 (Some ''Available'') None] ''101'' [CHR 0x00, CHR ''z'']
        = Inr (Some (bed_101 (Some ''Available'') None))"
    by code_simp
  have le: "(49999::nat) \<le> 49999" by simp
  note d = assign_long_ward[OF le]
  show ?thesis using a b c d by blast
qed

end
